theory Spec2Isabelle
  imports Complex_Main
begin

section \<open>JavaScript strings\<close>

text \<open>
  A JavaScript string is modelled as a \<open>string\<close>: a list of characters, each read as a
  code unit in the range U+0000..U+00FF. Code units above that range are outside the model.
  \<open>isWhiteSpace\<close> is the class \<open>\s\<close> of a regular expression, which is also what
  \<open>String.prototype.trim\<close> removes (WhiteSpace and LineTerminator): in this range TAB, LF,
  VT, FF, CR, SPACE and NBSP.
\<close>

abbreviation TAB :: char where
  "TAB \<equiv> CHR 0x09"

abbreviation LF :: char where
  "LF \<equiv> CHR 0x0A"

definition isWhiteSpace :: "char \<Rightarrow> bool" where
  "isWhiteSpace c =
     (c = CHR 0x09 \<or> c = CHR 0x0A \<or> c = CHR 0x0B \<or> c = CHR 0x0C \<or> c = CHR 0x0D \<or>
      c = CHR 0x20 \<or> c = CHR 0xA0)"

definition trim :: "string \<Rightarrow> string" where
  "trim s = rev (dropWhile isWhiteSpace (rev (dropWhile isWhiteSpace s)))"

text \<open>
  \<open>String.prototype.split\<close> with a separator that never matches the empty string.
  The separator is given by its matcher: \<open>m s\<close> is the length of the match that starts at
  the head of \<open>s\<close>, and 0 when there is none. \<open>seg\<close> is the part of the current segment
  already scanned (the characters between the positions p and q of the ECMAScript
  algorithm). A match closes the segment and scanning resumes after the match; at the end of
  the string the open segment is pushed, so the result is never empty and the empty string
  splits to one empty segment.
\<close>

fun jsSplit :: "(string \<Rightarrow> nat) \<Rightarrow> string \<Rightarrow> string \<Rightarrow> string list" where
  "jsSplit m seg [] = [seg]"
| "jsSplit m seg (c # cs) =
     (if m (c # cs) = 0 then jsSplit m (seg @ [c]) cs
      else seg # jsSplit m [] (drop (m (c # cs) - 1) cs))"

text \<open>The length of the run of white space at the head of a string.\<close>

definition wsRun :: "string \<Rightarrow> nat" where
  "wsRun s = length (takeWhile isWhiteSpace s)"

text \<open>The matcher of \<open>/\s+/\<close>: a greedy run of one or more white space characters.\<close>

definition matchWs1 :: "string \<Rightarrow> nat" where
  "matchWs1 s = wsRun s"

text \<open>The matcher of \<open>/\s{2,}/\<close>: a greedy run of two or more white space characters.\<close>

definition matchWs2 :: "string \<Rightarrow> nat" where
  "matchWs2 s = (if 2 \<le> wsRun s then wsRun s else 0)"

text \<open>
  The matcher of \<open>/\t|\s{2,}/\<close>: the first alternative wins, so a tab at the head is a
  match of length one even when more white space follows it.
\<close>

definition matchTabOrWs2 :: "string \<Rightarrow> nat" where
  "matchTabOrWs2 s = (case s of [] \<Rightarrow> 0 | c # cs \<Rightarrow> if c = TAB then 1 else matchWs2 s)"

text \<open>The matcher of the string separator \<open>'\n'\<close>.\<close>

definition matchLF :: "string \<Rightarrow> nat" where
  "matchLF s = (case s of [] \<Rightarrow> 0 | c # cs \<Rightarrow> if c = LF then 1 else 0)"

text \<open>
  \<open>String.prototype.toUpperCase\<close>, exact on ASCII strings: the letters a..z are raised and
  every other character is kept. The file-type tags that \<open>uploadDocument\<close> lets through
  are ASCII; the function is used for the text of one progress step only.
\<close>

definition toUpperCase :: "string \<Rightarrow> string" where
  "toUpperCase s =
     map (\<lambda>c. if 97 \<le> (of_char c :: nat) \<and> (of_char c :: nat) \<le> 122
              then char_of ((of_char c :: nat) - 32) else c) s"

section \<open>Extraction results\<close>

text \<open>A JavaScript \<open>Error\<close> with its message.\<close>

datatype error = Error (message: string)

text \<open>
  A table cell is a JavaScript value: a string, or a value that is not a string (a number, a
  boolean, a date), carried by its string conversion as \<open>Array.prototype.join\<close> writes it.
\<close>

datatype cell = Str string | NonStr string

fun cellText :: "cell \<Rightarrow> string" where
  "cellText (Str s) = s"
| "cellText (NonStr s) = s"

record table_structure =
  rows :: nat
  columns :: nat

record table =
  pageNumber :: nat
  tableIndex :: nat
  data :: "cell list list"
  structure' :: table_structure

record result_metadata =
  pageCount :: nat
  extractionConfidence :: int
  processedPages :: "nat list"

record extraction_result =
  text' :: string
  metadata :: result_metadata
  tables :: "table list"

text \<open>\<open>tableData[0] ? tableData[0].length : 0\<close>\<close>

definition firstRowLength :: "'a list list \<Rightarrow> nat" where
  "firstRowLength tableData = (case tableData of [] \<Rightarrow> 0 | r # rs \<Rightarrow> length r)"

text \<open>The object literal every extractor pushes for a table.\<close>

definition mkTable :: "nat \<Rightarrow> nat \<Rightarrow> cell list list \<Rightarrow> table" where
  "mkTable pn ti tableData =
     \<lparr>pageNumber = pn, tableIndex = ti, data = tableData,
      structure' = \<lparr>rows = length tableData, columns = firstRowLength tableData\<rparr>\<rparr>"

subsection \<open>Page estimate (txtParser.js, docxParser.js, ocrParser.js)\<close>

text \<open>\<open>text.split(/\s+/).filter(word => word.length > 0).length\<close>\<close>

definition wordCount :: "string \<Rightarrow> nat" where
  "wordCount t = length (filter (\<lambda>word. length word > 0) (jsSplit matchWs1 [] t))"

text \<open>
  \<open>Math.max(1, Math.ceil(wordCount / 500))\<close>. The quotient of the source is a double; for a
  count below \<open>2^53\<close> the rounded quotient lies on the same side of every integer as the exact
  one, so the ceiling is the ceiling of the exact quotient.
\<close>

definition estimatedPages :: "nat \<Rightarrow> nat" where
  "estimatedPages wc = max 1 (nat \<lceil>real wc / 500\<rceil>)"

text \<open>\<open>Array.from({ length: n }, (_, i) => i + 1)\<close>\<close>

definition arrayFromLength :: "nat \<Rightarrow> nat list" where
  "arrayFromLength n = map (\<lambda>i. i + 1) [0..<n]"

subsection \<open>Plain text (txtParser.js)\<close>

text \<open>
  \<open>readFile\<close> is the outcome of \<open>fs.readFileSync(filePath, 'utf-8')\<close>: the text, or the
  error it throws.
\<close>

definition extractTXTText :: "(string \<Rightarrow> error + string) \<Rightarrow> string \<Rightarrow> error + extraction_result" where
  "extractTXTText readFile fpath =
     (case readFile fpath of
        Inl e \<Rightarrow> Inl (Error (''Failed to extract TXT content: '' @ message e))
      | Inr t \<Rightarrow>
          Inr \<lparr>text' = t,
               metadata = \<lparr>pageCount = estimatedPages (wordCount t),
                           extractionConfidence = 100,
                           processedPages = arrayFromLength (estimatedPages (wordCount t))\<rparr>,
               tables = []\<rparr>)"

subsection \<open>Word-processor documents (docxParser.js)\<close>

text \<open>The state of the line loop: \<open>currentTable\<close>, \<open>tableIndex\<close> and \<open>extractedTables\<close>.\<close>

record heuristic_state =
  currentTable :: "string list list"
  tableIndex' :: nat
  extractedTables' :: "table list"

text \<open>The table pushed for the accumulated rows.\<close>

definition pushTable :: "heuristic_state \<Rightarrow> table list" where
  "pushTable st =
     extractedTables' st @ [mkTable 1 (tableIndex' st) (map (map Str) (currentTable st))]"

text \<open>The body of the loop for the line \<open>lines[i]\<close>.\<close>

definition lineStep :: "string \<Rightarrow> heuristic_state \<Rightarrow> heuristic_state" where
  "lineStep raw st =
     (let line = trim raw in
      if TAB \<in> set line \<or> length (jsSplit matchWs2 [] line) > 2 then
        (let cells = filter (\<lambda>cell. trim cell \<noteq> []) (jsSplit matchTabOrWs2 [] line) in
         if length cells > 1 then st\<lparr>currentTable := currentTable st @ [cells]\<rparr> else st)
      else if length (currentTable st) > 0 then
        (if length (currentTable st) > 1
         then st\<lparr>extractedTables' := pushTable st, tableIndex' := tableIndex' st + 1,
                 currentTable := []\<rparr>
         else st\<lparr>currentTable := []\<rparr>)
      else st)"

text \<open>\<open>for (let i = 0; i < lines.length; i++)\<close>\<close>

function linesLoop :: "string list \<Rightarrow> nat \<Rightarrow> heuristic_state \<Rightarrow> heuristic_state" where
  "linesLoop lines i st =
     (if i < length lines then linesLoop lines (i + 1) (lineStep (lines ! i) st) else st)"
  by pat_completeness auto
termination
  by (relation "measure (\<lambda>(lines, i, st). length lines - i)") auto

declare linesLoop.simps [simp del]

text \<open>The loop from the empty state, followed by the push of the last table.\<close>

definition tableHeuristic :: "string list \<Rightarrow> table list" where
  "tableHeuristic lines =
     (let st = linesLoop lines 0 \<lparr>currentTable = [], tableIndex' = 0, extractedTables' = []\<rparr>
      in if length (currentTable st) > 1 then pushTable st else extractedTables' st)"

text \<open>
  \<open>extractRawText\<close> is the outcome of the first call of \<open>mammoth.extractRawText\<close> (the text
  and the converter's messages), \<open>extractRawText2\<close> that of the second call, made inside the
  inner \<open>try\<close>: when it throws, the inner \<open>catch\<close> leaves the table list empty.
\<close>

definition extractDOCXText ::
  "(string \<Rightarrow> error + string \<times> string list) \<Rightarrow> (string \<Rightarrow> error + string \<times> string list) \<Rightarrow>
   string \<Rightarrow> error + extraction_result" where
  "extractDOCXText extractRawText extractRawText2 fpath =
     (case extractRawText fpath of
        Inl e \<Rightarrow> Inl (Error (''Failed to extract DOCX content: '' @ message e))
      | Inr (t, messages) \<Rightarrow>
          Inr \<lparr>text' = t,
               metadata = \<lparr>pageCount = estimatedPages (wordCount t),
                           extractionConfidence = (if length messages = 0 then 95 else 85),
                           processedPages = arrayFromLength (estimatedPages (wordCount t))\<rparr>,
               tables = (case extractRawText2 fpath of
                           Inl e \<Rightarrow> []
                         | Inr tableResult \<Rightarrow> tableHeuristic (jsSplit matchLF [] t))\<rparr>)"

subsection \<open>Images (ocrParser.js)\<close>

text \<open>
  \<open>recognize\<close> is the outcome of reading the image and of \<open>Tesseract.recognize\<close> on it: the
  text and the confidence, or the error either of them throws. The confidence is a finite
  double, read as the real number it is. \<open>Math.round\<close> rounds to the nearest integer, a tie
  upwards.
\<close>

definition mathRound :: "real \<Rightarrow> int" where
  "mathRound x = \<lfloor>x + 1 / 2\<rfloor>"

definition extractOCRText :: "(string \<Rightarrow> error + string \<times> real) \<Rightarrow> string \<Rightarrow> error + extraction_result" where
  "extractOCRText recognize fpath =
     (case recognize fpath of
        Inl e \<Rightarrow> Inl (Error (''Failed to extract OCR content: '' @ message e))
      | Inr (t, confidence) \<Rightarrow>
          Inr \<lparr>text' = trim t,
               metadata = \<lparr>pageCount = estimatedPages (wordCount t),
                           extractionConfidence = mathRound confidence,
                           processedPages = arrayFromLength (estimatedPages (wordCount t))\<rparr>,
               tables = []\<rparr>)"

subsection \<open>Spreadsheets (extractExcelData)\<close>

text \<open>
  A worksheet as the external reader presents it: the cells of the sheet's range, row by
  row, \<open>None\<close> for a cell that is missing; a sheet without a range has no rows.
  \<open>sheet_to_json\<close> is the reader's documented contract for the options
  \<open>{ header: 1, defval: '' }\<close>: an array of row arrays in which a missing cell is the
  empty string; a sheet that is not in the workbook gives no rows.
\<close>

type_synonym worksheet = "cell option list list"

record workbook =
  SheetNames :: "string list"
  Sheets :: "string \<Rightarrow> worksheet option"

definition sheet_to_json :: "worksheet option \<Rightarrow> cell list list" where
  "sheet_to_json ws =
     (case ws of
        None \<Rightarrow> []
      | Some grid \<Rightarrow> map (map (\<lambda>c. case c of None \<Rightarrow> Str [] | Some v \<Rightarrow> v)) grid)"

text \<open>\<open>Array.prototype.join\<close> on strings.\<close>

definition join :: "string \<Rightarrow> string list \<Rightarrow> string" where
  "join sep xs = (case xs of [] \<Rightarrow> [] | x # rest \<Rightarrow> foldl (\<lambda>acc y. acc @ sep @ y) x rest)"

text \<open>\<open>jsonData.filter(row => row.some(cell => cell !== ''))\<close>\<close>

definition cleanRows :: "cell list list \<Rightarrow> cell list list" where
  "cleanRows jsonData = filter (\<lambda>row. list_ex (\<lambda>c. c \<noteq> Str []) row) jsonData"

text \<open>
  The callback of \<open>sheetNames.forEach\<close>, on the pair of \<open>combinedText\<close> and
  \<open>extractedTables\<close>.
\<close>

definition sheetStep ::
  "workbook \<Rightarrow> string \<times> table list \<Rightarrow> string \<times> nat \<Rightarrow> string \<times> table list" where
  "sheetStep wb acc sheet =
     (case (acc, sheet) of ((combinedText, extracted), (sheetName, index)) \<Rightarrow>
        (let jsonData = sheet_to_json (Sheets wb sheetName);
             textData = join [LF] (map (\<lambda>row. join [TAB] (map cellText row)) jsonData);
             cleanData = cleanRows jsonData
         in (combinedText @ ''Sheet: '' @ sheetName @ [LF] @ textData @ [LF, LF],
             if length cleanData > 0
             then extracted @ [mkTable (index + 1) index cleanData]
             else extracted)))"

definition extractExcelData :: "(string \<Rightarrow> error + workbook) \<Rightarrow> string \<Rightarrow> error + extraction_result" where
  "extractExcelData readWorkbook fpath =
     (case readWorkbook fpath of
        Inl e \<Rightarrow> Inl (Error (''Failed to extract Excel content: '' @ message e))
      | Inr wb \<Rightarrow>
          (let sheetNames = SheetNames wb;
               st = foldl (sheetStep wb) ([], []) (zip sheetNames [0..<length sheetNames])
           in Inr \<lparr>text' = trim (fst st),
                    metadata = \<lparr>pageCount = length sheetNames,
                                extractionConfidence = 98,
                                processedPages = arrayFromLength (length sheetNames)\<rparr>,
                    tables = snd st\<rparr>))"

subsection \<open>Page-structured documents (pdfParser.js)\<close>

text \<open>
  What the external parser hands over: a row with its cells when it has any (\<open>row.cells\<close>),
  each cell with its text when it has one (\<open>cell.text\<close>); a table, which may be null, with
  its rows when it has any; a loaded document with its number of pages, the outcome of
  \<open>getText\<close> and the outcome of \<open>getPageTables\<close> for a page.
\<close>

datatype pdf_row = PdfRow (cells: "string option list option")

datatype pdf_table = PdfTable (tableRows: "pdf_row list option")

record pdf_document =
  numPages :: nat
  getText :: "error + string"
  getPageTables :: "nat \<Rightarrow> error + pdf_table option list option"

text \<open>\<open>table.rows.map(row => row.cells ? row.cells.map(cell => cell.text || '') : [])\<close>\<close>

definition pdfTableData :: "pdf_row list \<Rightarrow> cell list list" where
  "pdfTableData rs =
     map (\<lambda>row. case cells row of
                  None \<Rightarrow> []
                | Some cs \<Rightarrow> map (\<lambda>c. Str (case c of None \<Rightarrow> [] | Some t \<Rightarrow> t)) cs) rs"

text \<open>The callback of \<open>pageTables.forEach\<close> for one table and its index.\<close>

definition pdfTable :: "nat \<Rightarrow> pdf_table option \<times> nat \<Rightarrow> table list" where
  "pdfTable pageNum entry =
     (case entry of (tbl, ti) \<Rightarrow>
        (case tbl of
           None \<Rightarrow> []
         | Some t \<Rightarrow>
             (case tableRows t of
                None \<Rightarrow> []
              | Some rs \<Rightarrow> if length rs > 0 then [mkTable pageNum ti (pdfTableData rs)] else [])))"

text \<open>The body of the page loop: an error of \<open>getPageTables\<close> is logged and the page skipped.\<close>

definition pdfPage :: "pdf_document \<Rightarrow> nat \<Rightarrow> table list" where
  "pdfPage doc pageNum =
     (case getPageTables doc pageNum of
        Inl e \<Rightarrow> []
      | Inr None \<Rightarrow> []
      | Inr (Some pageTables) \<Rightarrow>
          concat (map (pdfTable pageNum) (zip pageTables [0..<length pageTables])))"

text \<open>
  \<open>loadPdf\<close> is the outcome of reading the file, constructing the parser and \<open>load()\<close>.
\<close>

definition extractPDFText :: "(string \<Rightarrow> error + pdf_document) \<Rightarrow> string \<Rightarrow> error + extraction_result" where
  "extractPDFText loadPdf fpath =
     (case loadPdf fpath of
        Inl e \<Rightarrow> Inl (Error (''Failed to extract PDF content: '' @ message e))
      | Inr doc \<Rightarrow>
          (case getText doc of
             Inl e \<Rightarrow> Inl (Error (''Failed to extract PDF content: '' @ message e))
           | Inr t \<Rightarrow>
               Inr \<lparr>text' = t,
                    metadata = \<lparr>pageCount = numPages doc,
                                extractionConfidence = 95,
                                processedPages = arrayFromLength (numPages doc)\<rparr>,
                    tables = concat (map (pdfPage doc) [1..<numPages doc + 1])\<rparr>))"

section \<open>Progress tracker and registry (progressTracker.js)\<close>

text \<open>
  The payloads of the three events: \<open>progress\<close> (documentId, progress, step, status,
  elapsed), \<open>status\<close> (documentId, status, step, progress, elapsed) and \<open>error\<close>
  (documentId, error, elapsed).
\<close>

datatype event =
    ProgressEvent string real string string int
  | StatusEvent string string string real int
  | ErrorEvent string string int

text \<open>
  A \<open>ProgressTracker\<close> object. \<open>listeners\<close> is the state it inherits from
  \<open>EventEmitter\<close>: the names of the events that have a listener. \<open>emitted\<close> records the
  payloads handed to \<open>emit\<close> that were delivered. Every \<open>Date.now()\<close> of the source is
  an argument \<open>now\<close> of the model.
\<close>

record tracker =
  documentId :: string
  progress :: real
  status :: string
  currentStep :: string
  startTime :: int
  listeners :: "string list"
  emitted :: "event list"

definition newProgressTracker :: "int \<Rightarrow> string \<Rightarrow> tracker" where
  "newProgressTracker now docId =
     \<lparr>documentId = docId, progress = 0, status = ''pending'', currentStep = [],
      startTime = now, listeners = [], emitted = []\<rparr>"

text \<open>
  \<open>EventEmitter.prototype.emit\<close>: an \<open>error\<close> event on an emitter that has no listener
  for \<open>error\<close> is thrown (here: returned as the second component, the payload being the
  context of the thrown \<open>ERR_UNHANDLED_ERROR\<close>); every other event is delivered.
\<close>

definition emit :: "string \<Rightarrow> event \<Rightarrow> tracker \<Rightarrow> tracker \<times> event option" where
  "emit eventName payload t =
     (if eventName = ''error'' \<and> ''error'' \<notin> set (listeners t) then (t, Some payload)
      else (t\<lparr>emitted := emitted t @ [payload]\<rparr>, None))"

definition updateProgress :: "int \<Rightarrow> real \<Rightarrow> string \<Rightarrow> tracker \<Rightarrow> tracker" where
  "updateProgress now p step t =
     (let t1 = t\<lparr>progress := min 100 (max 0 p), currentStep := step\<rparr>
      in fst (emit ''progress''
                (ProgressEvent (documentId t1) (progress t1) (currentStep t1) (status t1)
                   (now - startTime t1)) t1))"

definition setStatus :: "int \<Rightarrow> string \<Rightarrow> string \<Rightarrow> tracker \<Rightarrow> tracker" where
  "setStatus now st step t =
     (let t1 = t\<lparr>status := st, currentStep := step\<rparr>
      in fst (emit ''status''
                (StatusEvent (documentId t1) (status t1) (currentStep t1) (progress t1)
                   (now - startTime t1)) t1))"

definition complete :: "int \<Rightarrow> int \<Rightarrow> tracker \<Rightarrow> tracker" where
  "complete now1 now2 t =
     updateProgress now2 100 ''Complete'' (setStatus now1 ''completed'' ''Processing complete'' t)"

text \<open>\<open>fail\<close> returns the tracker and what the \<open>emit\<close> of the error event threw, if it did.\<close>

definition fail :: "int \<Rightarrow> int \<Rightarrow> error \<Rightarrow> tracker \<Rightarrow> tracker \<times> event option" where
  "fail now1 now2 err t =
     (let t1 = setStatus now1 ''failed'' (''Error: '' @ message err) t
      in emit ''error'' (ErrorEvent (documentId t1) (message err) (now2 - startTime t1)) t1)"

section \<open>Document records (the Document model)\<close>

record doc_metadata = result_metadata +
  extractionDate :: "int option"

record document =
  fileName :: string
  originalName :: string
  filePath :: string
  fileType :: string
  fileSize :: nat
  processingStatus :: string
  extractedText :: string
  extractedTables :: "table list"
  metadata' :: doc_metadata
  errorMessage :: "string option"
  createdAt :: int

text \<open>
  The three update documents \<open>processDocument\<close> passes to \<open>findByIdAndUpdate\<close>: the
  status \<open>processing\<close>; the status \<open>completed\<close> with the extracted fields and the
  extraction date; the status \<open>failed\<close> with the error message.
\<close>

datatype update = SetProcessing | SetCompleted extraction_result int | SetFailed string

fun applyUpdate :: "update \<Rightarrow> document \<Rightarrow> document" where
  "applyUpdate SetProcessing d = d\<lparr>processingStatus := ''processing''\<rparr>"
| "applyUpdate (SetCompleted r date) d =
     d\<lparr>processingStatus := ''completed'',
       extractedText := text' r,
       extractedTables := tables r,
       metadata' := \<lparr>pageCount = pageCount (metadata r),
                      extractionConfidence = extractionConfidence (metadata r),
                      processedPages = processedPages (metadata r),
                      extractionDate = Some date\<rparr>\<rparr>"
| "applyUpdate (SetFailed m) d = d\<lparr>processingStatus := ''failed'', errorMessage := Some m\<rparr>"

section \<open>The system state\<close>

datatype extractor = PDF | DOCX | Excel | TXT | OCR

text \<open>
  \<open>heap\<close> holds the tracker objects by reference, \<open>activeProgress\<close> is the registry map,
  \<open>documents\<close> the Document collection. \<open>writes\<close> lists the updates the store has
  acknowledged, \<open>invoked\<close> the extractors that were called, \<open>timers\<close> the ids whose
  registry entry a pending \<open>setTimeout\<close> will remove.
\<close>

record sys =
  heap :: "nat \<Rightarrow> tracker option"
  nextRef :: nat
  activeProgress :: "string \<Rightarrow> nat option"
  documents :: "string \<Rightarrow> document option"
  writes :: "(string \<times> update) list"
  invoked :: "extractor list"
  timers :: "string list"

text \<open>
  The world outside: \<open>dateNow n\<close> is what the clock reads at the site \<open>n\<close> of the
  source, \<open>rejection n\<close> the error with which the store rejects the call at the site
  \<open>n\<close> (\<open>None\<close> when it resolves), \<open>newObjectId\<close> the id given to a new record; the
  others are the outcomes of the external readers for a path.
\<close>

record env =
  dateNow :: "nat \<Rightarrow> int"
  rejection :: "nat \<Rightarrow> error option"
  newObjectId :: string
  readFileSync :: "string \<Rightarrow> error + string"
  mammothExtractRawText :: "string \<Rightarrow> error + string \<times> string list"
  mammothExtractRawText2 :: "string \<Rightarrow> error + string \<times> string list"
  xlsxReadFile :: "string \<Rightarrow> error + workbook"
  pdfLoad :: "string \<Rightarrow> error + pdf_document"
  tesseractRecognize :: "string \<Rightarrow> error + string \<times> real"

definition createProgressTracker :: "int \<Rightarrow> string \<Rightarrow> sys \<Rightarrow> nat \<times> sys" where
  "createProgressTracker now docId s =
     (nextRef s,
      s\<lparr>heap := (heap s)(nextRef s \<mapsto> newProgressTracker now docId),
        nextRef := nextRef s + 1,
        activeProgress := (activeProgress s)(docId \<mapsto> nextRef s)\<rparr>)"

definition getProgressTracker :: "string \<Rightarrow> sys \<Rightarrow> tracker option" where
  "getProgressTracker docId s =
     (case activeProgress s docId of None \<Rightarrow> None | Some r \<Rightarrow> heap s r)"

definition removeProgressTracker :: "string \<Rightarrow> sys \<Rightarrow> sys" where
  "removeProgressTracker docId s = s\<lparr>activeProgress := (activeProgress s)(docId := None)\<rparr>"

text \<open>
  A method call on the tracker object behind a reference. The references the program holds
  are allocated; on one that is not, the call changes nothing.
\<close>

definition onTracker :: "nat \<Rightarrow> (tracker \<Rightarrow> tracker) \<Rightarrow> sys \<Rightarrow> sys" where
  "onTracker r f s =
     (case heap s r of None \<Rightarrow> s | Some t \<Rightarrow> s\<lparr>heap := (heap s)(r \<mapsto> f t)\<rparr>)"

definition failOn :: "nat \<Rightarrow> int \<Rightarrow> int \<Rightarrow> error \<Rightarrow> sys \<Rightarrow> event option \<times> sys" where
  "failOn r now1 now2 err s =
     (case heap s r of
        None \<Rightarrow> (None, s)
      | Some t \<Rightarrow> (snd (fail now1 now2 err t), s\<lparr>heap := (heap s)(r \<mapsto> fst (fail now1 now2 err t))\<rparr>))"

text \<open>
  \<open>Document.findByIdAndUpdate\<close>: rejected by the store, or applied to the record of that
  id when there is one.
\<close>

definition findByIdAndUpdate :: "error option \<Rightarrow> string \<Rightarrow> update \<Rightarrow> sys \<Rightarrow> error + sys" where
  "findByIdAndUpdate rej docId u s =
     (case rej of
        Some e \<Rightarrow> Inl e
      | None \<Rightarrow>
          Inr (s\<lparr>documents := (case documents s docId of
                                 None \<Rightarrow> documents s
                               | Some d \<Rightarrow> (documents s)(docId \<mapsto> applyUpdate u d)),
                  writes := writes s @ [(docId, u)]\<rparr>))"

text \<open>\<open>Document.findById\<close>\<close>

definition findById :: "error option \<Rightarrow> string \<Rightarrow> sys \<Rightarrow> error + document option" where
  "findById rej docId s = (case rej of Some e \<Rightarrow> Inl e | None \<Rightarrow> Inr (documents s docId))"

section \<open>The controller (documentController.js)\<close>

subsection \<open>processDocument\<close>

text \<open>
  The \<open>switch\<close> on the file type, with the state it leaves: the extractor it called, and
  for an image the checkpoint before the call.
\<close>

definition dispatch ::
  "env \<Rightarrow> string \<Rightarrow> string \<Rightarrow> nat \<Rightarrow> sys \<Rightarrow> (error + extraction_result) \<times> sys" where
  "dispatch e fpath ftype r s =
     (if ftype = ''pdf'' then
        (extractPDFText (pdfLoad e) fpath, s\<lparr>invoked := invoked s @ [PDF]\<rparr>)
      else if ftype = ''docx'' then
        (extractDOCXText (mammothExtractRawText e) (mammothExtractRawText2 e) fpath,
         s\<lparr>invoked := invoked s @ [DOCX]\<rparr>)
      else if ftype = ''xlsx'' \<or> ftype = ''xls'' then
        (extractExcelData (xlsxReadFile e) fpath, s\<lparr>invoked := invoked s @ [Excel]\<rparr>)
      else if ftype = ''txt'' then
        (extractTXTText (readFileSync e) fpath, s\<lparr>invoked := invoked s @ [TXT]\<rparr>)
      else if ftype = ''jpg'' \<or> ftype = ''jpeg'' \<or> ftype = ''png'' then
        (extractOCRText (tesseractRecognize e) fpath,
         (onTracker r (updateProgress (dateNow e 5) 50 ''Performing OCR on image'') s)
           \<lparr>invoked := invoked s @ [OCR]\<rparr>)
      else (Inl (Error ''Unsupported file type''), s))"

text \<open>
  The \<open>try\<close> block: the error it throws, if any, and the state at that point. Clock sites
  3 to 9 and store sites 1 and 2 are in this block.
\<close>

definition tryBlock ::
  "env \<Rightarrow> string \<Rightarrow> string \<Rightarrow> string \<Rightarrow> nat \<Rightarrow> sys \<Rightarrow> error option \<times> sys" where
  "tryBlock e docId fpath ftype r s0 =
     (case findByIdAndUpdate (rejection e 1) docId SetProcessing s0 of
        Inl err \<Rightarrow> (Some err, s0)
      | Inr s1 \<Rightarrow>
          (let s2 = onTracker r (updateProgress (dateNow e 3) 10 ''Reading file'') s1;
               s3 = onTracker r (updateProgress (dateNow e 4) 30
                                   (''Processing '' @ toUpperCase ftype @ '' file'')) s2
           in case dispatch e fpath ftype r s3 of
                (Inl err, s4) \<Rightarrow> (Some err, s4)
              | (Inr extractedData, s4) \<Rightarrow>
                  (let s5 = onTracker r (updateProgress (dateNow e 6) 80 ''Saving extracted data'') s4
                   in case findByIdAndUpdate (rejection e 2) docId
                             (SetCompleted extractedData (dateNow e 7)) s5 of
                        Inl err \<Rightarrow> (Some err, s5)
                      | Inr s6 \<Rightarrow>
                          (None, onTracker r (complete (dateNow e 8) (dateNow e 9)) s6))))"

text \<open>What escapes \<open>processDocument\<close>: an unhandled error event, or a rejection of the store.\<close>

datatype thrown = Unhandled event | Rejected error

text \<open>The \<open>finally\<close> block: the cleanup of the registry entry is scheduled.\<close>

definition scheduleCleanup :: "string \<Rightarrow> sys \<Rightarrow> sys" where
  "scheduleCleanup docId s = s\<lparr>timers := timers s @ [docId]\<rparr>"

text \<open>
  \<open>processDocument\<close>: the \<open>try\<close> block, the \<open>catch\<close> block (clock sites 10 and 11,
  store site 3) and the \<open>finally\<close> block. The result is what the returned promise rejects with,
  \<open>None\<close> when it resolves.
\<close>

definition processDocument ::
  "env \<Rightarrow> string \<Rightarrow> string \<Rightarrow> string \<Rightarrow> nat \<Rightarrow> sys \<Rightarrow> thrown option \<times> sys" where
  "processDocument e docId fpath ftype r s0 =
     (case tryBlock e docId fpath ftype r s0 of
        (None, s) \<Rightarrow> (None, scheduleCleanup docId s)
      | (Some err, s) \<Rightarrow>
          (case failOn r (dateNow e 10) (dateNow e 11) err s of
             (Some ev, s') \<Rightarrow> (Some (Unhandled ev), scheduleCleanup docId s')
           | (None, s') \<Rightarrow>
               (case findByIdAndUpdate (rejection e 3) docId (SetFailed (message err)) s' of
                  Inl err' \<Rightarrow> (Some (Rejected err'), scheduleCleanup docId s')
                | Inr s'' \<Rightarrow> (None, scheduleCleanup docId s''))))"

subsection \<open>uploadDocument\<close>

text \<open>
  The uploaded file as the upload middleware presents it, and a response: its HTTP status
  and its body. The \<open>message\<close> text of an error body is presentation and is left out.
\<close>

record upload_file =
  originalname :: string
  filename :: string
  path :: string
  size' :: nat

datatype body =
    ErrorBody string string
  | UploadBody string string string string int
  | ProgressBody string string real string int

record response =
  statusCode :: nat
  body :: body

definition allowedTypes :: "string list" where
  "allowedTypes = [''pdf'', ''docx'', ''xlsx'', ''xls'', ''txt'', ''jpg'', ''jpeg'', ''png'']"

text \<open>\<open>new Document({...})\<close> with the defaults of the schema, stored by \<open>save\<close>.\<close>

definition newDocument :: "upload_file \<Rightarrow> string \<Rightarrow> int \<Rightarrow> document" where
  "newDocument file fileExt now =
     \<lparr>fileName = trim (filename file), originalName = originalname file, filePath = path file,
      fileType = fileExt, fileSize = size' file, processingStatus = ''pending'',
      extractedText = [], extractedTables = [],
      metadata' = \<lparr>pageCount = 0, extractionConfidence = 0, processedPages = [],
                    extractionDate = Some now\<rparr>,
      errorMessage = None, createdAt = now\<rparr>"

definition save :: "error option \<Rightarrow> string \<Rightarrow> document \<Rightarrow> sys \<Rightarrow> error + sys" where
  "save rej docId d s =
     (case rej of Some e \<Rightarrow> Inl e | None \<Rightarrow> Inr (s\<lparr>documents := (documents s)(docId \<mapsto> d)\<rparr>))"

text \<open>
  \<open>uploadDocument\<close> up to the point where it hands the job to \<open>processDocument\<close>, which
  is not awaited: the response, the state, and the arguments of that call when it is made.
  \<open>fileExt\<close> is the value of \<open>path.extname(file.originalname).toLowerCase().slice(1)\<close>.
  Clock sites 0 to 2 and store site 0 are here.
\<close>

definition uploadDocument ::
  "env \<Rightarrow> upload_file option \<Rightarrow> string \<Rightarrow> sys \<Rightarrow> response \<times> sys \<times> (string \<times> string \<times> string \<times> nat) option" where
  "uploadDocument e reqFile fileExt s =
     (case reqFile of
        None \<Rightarrow> (\<lparr>statusCode = 400, body = ErrorBody ''No file uploaded'' ''NO_FILE_UPLOADED''\<rparr>, s, None)
      | Some file \<Rightarrow>
          if fileExt \<notin> set allowedTypes then
            (\<lparr>statusCode = 400, body = ErrorBody ''Invalid file type'' ''INVALID_FILE_TYPE''\<rparr>, s, None)
          else if size' file > 10 * 1024 * 1024 then
            (\<lparr>statusCode = 400, body = ErrorBody ''File too large'' ''FILE_TOO_LARGE''\<rparr>, s, None)
          else if originalname file = [] \<or> length (trim (originalname file)) = 0 then
            (\<lparr>statusCode = 400, body = ErrorBody ''Invalid file name'' ''INVALID_FILE_NAME''\<rparr>, s, None)
          else
            (case save (rejection e 0) (newObjectId e) (newDocument file fileExt (dateNow e 0)) s of
               Inl err \<Rightarrow>
                 (\<lparr>statusCode = 500, body = ErrorBody ''Failed to upload document'' ''UPLOAD_ERROR''\<rparr>,
                  s, None)
             | Inr s1 \<Rightarrow>
                 (let created = createProgressTracker (dateNow e 1) (newObjectId e) s1;
                      s3 = onTracker (fst created)
                             (setStatus (dateNow e 2) ''processing'' ''Starting document processing'')
                             (snd created)
                  in (\<lparr>statusCode = 201,
                       body = UploadBody (newObjectId e) (originalname file) fileExt ''pending''
                                (dateNow e 0)\<rparr>,
                      s3, Some (newObjectId e, path file, fileExt, fst created)))))"

subsection \<open>getDocumentProgress\<close>

text \<open>\<open>now\<close> is the clock at the request, \<open>rej\<close> the rejection of \<open>findById\<close>, if any.\<close>

definition getDocumentProgress :: "int \<Rightarrow> error option \<Rightarrow> string \<Rightarrow> sys \<Rightarrow> response" where
  "getDocumentProgress now rej docId s =
     (case getProgressTracker docId s of
        None \<Rightarrow>
          (case findById rej docId s of
             Inl err \<Rightarrow>
               \<lparr>statusCode = 500, body = ErrorBody ''Failed to get progress'' ''GET_PROGRESS_ERROR''\<rparr>
           | Inr None \<Rightarrow>
               \<lparr>statusCode = 404, body = ErrorBody ''Document not found'' ''DOCUMENT_NOT_FOUND''\<rparr>
           | Inr (Some d) \<Rightarrow>
               \<lparr>statusCode = 200,
                body = ProgressBody docId (processingStatus d)
                         (if processingStatus d = ''completed'' then 100 else 0)
                         (processingStatus d) 0\<rparr>)
      | Some t \<Rightarrow>
          \<lparr>statusCode = 200,
           body = ProgressBody docId (status t) (progress t) (currentStep t) (now - startTime t)\<rparr>)"

section \<open>The specification's words\<close>

text \<open>
  The definitions of this section follow the specification, not the source; the theorems
  below compare them with the definitions above.
\<close>

abbreviation nonWs :: "char \<Rightarrow> bool" where
  "nonWs \<equiv> (\<lambda>c. \<not> isWhiteSpace c)"

text \<open>
  The whitespace-delimited non-empty tokens of a text: white space is skipped, and a token
  is a maximal run of characters that are not white space.
\<close>

function spec_tokens :: "string \<Rightarrow> string list" where
  "spec_tokens [] = []"
| "spec_tokens (c # cs) =
     (if isWhiteSpace c then spec_tokens cs
      else takeWhile nonWs (c # cs) # spec_tokens (dropWhile nonWs cs))"
  by pat_completeness auto
termination
  by (relation "measure length") (auto simp: le_imp_less_Suc length_dropWhile_le)

text \<open>
  A trimmed line is a row candidate when it contains a tab, or splitting it on runs of two
  or more white space characters yields more than two segments.
\<close>

definition spec_isRowCandidate :: "string \<Rightarrow> bool" where
  "spec_isRowCandidate line = (TAB \<in> set line \<or> length (jsSplit matchWs2 [] line) > 2)"

text \<open>
  The cells of a row candidate: the segments between tabs and runs of two or more white
  space characters, the empty segments discarded.
\<close>

definition spec_rowCells :: "string \<Rightarrow> string list" where
  "spec_rowCells line = filter (\<lambda>seg. seg \<noteq> []) (jsSplit matchTabOrWs2 [] line)"

text \<open>
  The heuristic over the lines that remain, with the accumulator of candidate rows and the
  index of the next table. A row candidate is pushed when it has more than one cell. A line
  that is not a row candidate closes the accumulator, which is emitted when it has more
  than one row. After the last line the accumulator is flushed under the same rule.
\<close>

fun spec_tableHeuristic :: "string list list \<Rightarrow> nat \<Rightarrow> string list \<Rightarrow> table list" where
  "spec_tableHeuristic acc k [] =
     (if length acc > 1 then [mkTable 1 k (map (map Str) acc)] else [])"
| "spec_tableHeuristic acc k (l # ls) =
     (if spec_isRowCandidate (trim l) then
        (if length (spec_rowCells (trim l)) > 1
         then spec_tableHeuristic (acc @ [spec_rowCells (trim l)]) k ls
         else spec_tableHeuristic acc k ls)
      else if length acc > 1
        then mkTable 1 k (map (map Str) acc) # spec_tableHeuristic [] (k + 1) ls
      else spec_tableHeuristic [] k ls)"

text \<open>What every emitted table looks like.\<close>

definition wellFormedTable :: "table \<Rightarrow> bool" where
  "wellFormedTable t =
     (pageNumber t = 1 \<and> 1 < length (data t) \<and> rows (structure' t) = length (data t) \<and>
      columns (structure' t) = length (hd (data t)) \<and> list_all (\<lambda>row. 1 < length row) (data t))"




section \<open>Observations and example worlds\<close>

text \<open>The progress values a tracker has reported in its progress events, in order.\<close>

fun progressOf :: "event \<Rightarrow> real list" where
  "progressOf (ProgressEvent d p step st el) = [p]"
| "progressOf (StatusEvent d st step p el) = []"
| "progressOf (ErrorEvent d m el) = []"

definition progressValues :: "tracker \<Rightarrow> real list" where
  "progressValues t = concat (map progressOf (emitted t))"

definition isImage :: "string \<Rightarrow> bool" where
  "isImage ftype = (ftype = ''jpg'' \<or> ftype = ''jpeg'' \<or> ftype = ''png'')"

text \<open>The terminal writes among the acknowledged updates of a job.\<close>

fun isTerminal :: "update \<Rightarrow> bool" where
  "isTerminal SetProcessing = False"
| "isTerminal (SetCompleted r date) = True"
| "isTerminal (SetFailed m) = True"

definition terminalWrites :: "string \<Rightarrow> sys \<Rightarrow> update list" where
  "terminalWrites docId s = filter isTerminal (map snd (filter (\<lambda>w. fst w = docId) (writes s)))"

text \<open>
  The invariant of a Document record: a completed record has no error message and has an
  extraction date, a failed record has an error message.
\<close>

definition recordInvariant :: "document \<Rightarrow> bool" where
  "recordInvariant d =
     ((processingStatus d = ''completed'' \<longrightarrow>
         errorMessage d = None \<and> extractionDate (metadata' d) \<noteq> None) \<and>
      (processingStatus d = ''failed'' \<longrightarrow> errorMessage d \<noteq> None))"

text \<open>
  An example world: the clock reads the number of the site, the store never rejects, the
  file \<open>uploads/notes.txt\<close> reads as two words, \<open>uploads/report.docx\<close> converts without
  messages, \<open>uploads/scan.png\<close> is recognised with confidence 87.5, \<open>uploads/book.xlsx\<close>
  has a sheet of two rows and an empty sheet, \<open>uploads/paper.pdf\<close> has two pages, and
  every other path cannot be read.
\<close>

definition exampleWorkbook :: workbook where
  "exampleWorkbook =
     \<lparr>SheetNames = [''Sheet1'', ''Sheet2''],
      Sheets = (\<lambda>n. if n = ''Sheet1''
                     then Some [[Some (Str ''name''), Some (Str ''qty'')],
                                [None, None],
                                [Some (Str ''bolt''), Some (NonStr ''4'')]]
                     else if n = ''Sheet2'' then Some [[None, None], [Some (Str []), None]]
                     else None)\<rparr>"

definition examplePdf :: pdf_document where
  "examplePdf =
     \<lparr>numPages = 2, getText = Inr ''page one page two'',
      getPageTables = (\<lambda>n. if n = 1
                            then Inr (Some [Some (PdfTable (Some [PdfRow (Some [Some ''a'', None])]))])
                            else Inl (Error ''no tables''))\<rparr>"

definition exampleEnv :: env where
  "exampleEnv =
     \<lparr>dateNow = (\<lambda>n. int n), rejection = (\<lambda>n. None), newObjectId = ''doc1'',
      readFileSync = (\<lambda>p. if p = ''uploads/notes.txt'' then Inr ''hello world''
                           else Inl (Error ''ENOENT'')),
      mammothExtractRawText = (\<lambda>p. if p = ''uploads/report.docx'' then Inr (''one two'', [])
                                    else Inl (Error ''ENOENT'')),
      mammothExtractRawText2 = (\<lambda>p. if p = ''uploads/report.docx'' then Inr (''one two'', [])
                                     else Inl (Error ''ENOENT'')),
      xlsxReadFile = (\<lambda>p. if p = ''uploads/book.xlsx'' then Inr exampleWorkbook
                           else Inl (Error ''ENOENT'')),
      pdfLoad = (\<lambda>p. if p = ''uploads/paper.pdf'' then Inr examplePdf else Inl (Error ''ENOENT'')),
      tesseractRecognize = (\<lambda>p. if p = ''uploads/scan.png'' then Inr (''two words'', 87.5)
                                 else Inl (Error ''ENOENT''))\<rparr>"

definition emptySys :: sys where
  "emptySys =
     \<lparr>heap = (\<lambda>r. None), nextRef = 0, activeProgress = (\<lambda>d. None), documents = (\<lambda>d. None),
      writes = [], invoked = [], timers = []\<rparr>"

definition notesFile :: upload_file where
  "notesFile =
     \<lparr>originalname = ''notes.txt'', filename = ''1-notes.txt'', path = ''uploads/notes.txt'',
      size' = 11\<rparr>"

definition lostFile :: upload_file where
  "lostFile =
     \<lparr>originalname = ''lost.txt'', filename = ''2-lost.txt'', path = ''uploads/lost.txt'',
      size' = 11\<rparr>"

definition scanFile :: upload_file where
  "scanFile =
     \<lparr>originalname = ''scan.png'', filename = ''3-scan.png'', path = ''uploads/scan.png'',
      size' = 2048\<rparr>"

text \<open>The state after the upload of each of the files into the empty system.\<close>

definition scanUploaded :: sys where
  "scanUploaded = fst (snd (uploadDocument exampleEnv (Some scanFile) ''png'' emptySys))"

definition notesUploaded :: sys where
  "notesUploaded = fst (snd (uploadDocument exampleEnv (Some notesFile) ''txt'' emptySys))"

definition lostUploaded :: sys where
  "lostUploaded = fst (snd (uploadDocument exampleEnv (Some lostFile) ''txt'' emptySys))"

text \<open>
  The state after the job of the first file has run and its registry entry was removed.
\<close>

definition notesDone :: sys where
  "notesDone =
     removeProgressTracker ''doc1''
       (snd (processDocument exampleEnv ''doc1'' ''uploads/notes.txt'' ''txt'' 0 notesUploaded))"

section \<open>Page estimate: the word count is the number of tokens\<close>

lemma drop_wsRun: "drop (wsRun s) s = dropWhile isWhiteSpace s"
  by (simp add: wsRun_def dropWhile_eq_drop)

lemma spec_tokens_dropWhile: "spec_tokens (dropWhile isWhiteSpace s) = spec_tokens s"
  by (induction s) auto

lemma spec_tokens_unfold:
  "spec_tokens s =
     (if takeWhile nonWs s = [] then [] else [takeWhile nonWs s]) @ spec_tokens (dropWhile nonWs s)"
  by (cases s) auto

lemma split_ws1_tokens:
  "filter (\<lambda>word. length word > 0) (jsSplit matchWs1 seg s) =
     (if seg @ takeWhile nonWs s = [] then [] else [seg @ takeWhile nonWs s]) @
       spec_tokens (dropWhile nonWs s)"
proof (induction matchWs1 seg s rule: jsSplit.induct)
  case (1 seg)
  then show ?case by simp
next
  case (2 seg c cs)
  show ?case
  proof (cases "isWhiteSpace c")
    case False
    then have "matchWs1 (c # cs) = 0" by (simp add: matchWs1_def wsRun_def)
    with 2 False show ?thesis by simp
  next
    case True
    then have m: "matchWs1 (c # cs) = Suc (wsRun cs)" by (simp add: matchWs1_def wsRun_def)
    have d: "drop (matchWs1 (c # cs) - 1) cs = dropWhile isWhiteSpace cs"
      by (simp add: m drop_wsRun)
    have "filter (\<lambda>word. length word > 0) (jsSplit matchWs1 [] (dropWhile isWhiteSpace cs)) =
          spec_tokens (dropWhile isWhiteSpace cs)"
      using 2(2) m d spec_tokens_unfold [of "dropWhile isWhiteSpace cs"] by simp
    then show ?thesis using True m d by (simp add: spec_tokens_dropWhile)
  qed
qed

lemma wordCount_tokens: "wordCount t = length (spec_tokens t)"
  using split_ws1_tokens [of "[]" t] spec_tokens_unfold [of t] by (simp add: wordCount_def)

lemma arrayFromLength_upt: "arrayFromLength n = [1..<n + 1]"
  using map_Suc_upt [of 0 n] by (simp add: arrayFromLength_def)

lemma spec_tokens_words: "spec_tokens (concat (replicate n ''w '')) = replicate n ''w''"
  by (induction n) (simp_all add: isWhiteSpace_def)

text \<open>
  C6. For every text the plain-text, word-processor and OCR extractors report
  \<open>pageCount = max(1, ceil(wordCount / 500))\<close>, where the word count is the number of
  whitespace-delimited non-empty tokens of the text, and \<open>processedPages\<close> is the dense
  sequence \<open>1..pageCount\<close>; a plain text of 1000 words gives \<open>pageCount = 2\<close> and
  \<open>processedPages = [1, 2]\<close>.
\<close>

theorem C6_page_estimate:
  "(readFile fpath = Inr t \<longrightarrow>
      (\<exists>r. extractTXTText readFile fpath = Inr r \<and>
           pageCount (metadata r) = max 1 (nat \<lceil>real (length (spec_tokens t)) / 500\<rceil>) \<and>
           processedPages (metadata r) = [1..<pageCount (metadata r) + 1] \<and>
           (length (spec_tokens t) = 1000 \<longrightarrow>
              pageCount (metadata r) = 2 \<and> processedPages (metadata r) = [1, 2]))) \<and>
   (extractRawText fpath = Inr (t, messages) \<longrightarrow>
      (\<exists>r. extractDOCXText extractRawText extractRawText2 fpath = Inr r \<and>
           pageCount (metadata r) = max 1 (nat \<lceil>real (length (spec_tokens t)) / 500\<rceil>) \<and>
           processedPages (metadata r) = [1..<pageCount (metadata r) + 1])) \<and>
   (recognize fpath = Inr (t, confidence) \<longrightarrow>
      (\<exists>r. extractOCRText recognize fpath = Inr r \<and>
           pageCount (metadata r) = max 1 (nat \<lceil>real (length (spec_tokens t)) / 500\<rceil>) \<and>
           processedPages (metadata r) = [1..<pageCount (metadata r) + 1]))"
proof (intro conjI impI)
  assume "readFile fpath = Inr t"
  then show "\<exists>r. extractTXTText readFile fpath = Inr r \<and>
           pageCount (metadata r) = max 1 (nat \<lceil>real (length (spec_tokens t)) / 500\<rceil>) \<and>
           processedPages (metadata r) = [1..<pageCount (metadata r) + 1] \<and>
           (length (spec_tokens t) = 1000 \<longrightarrow>
              pageCount (metadata r) = 2 \<and> processedPages (metadata r) = [1, 2])"
    by (simp add: extractTXTText_def wordCount_tokens estimatedPages_def arrayFromLength_upt
          upt_rec [of 1] upt_rec [of 2])
next
  assume "extractRawText fpath = Inr (t, messages)"
  then show "\<exists>r. extractDOCXText extractRawText extractRawText2 fpath = Inr r \<and>
           pageCount (metadata r) = max 1 (nat \<lceil>real (length (spec_tokens t)) / 500\<rceil>) \<and>
           processedPages (metadata r) = [1..<pageCount (metadata r) + 1]"
    by (simp add: extractDOCXText_def wordCount_tokens estimatedPages_def arrayFromLength_upt)
next
  assume "recognize fpath = Inr (t, confidence)"
  then show "\<exists>r. extractOCRText recognize fpath = Inr r \<and>
           pageCount (metadata r) = max 1 (nat \<lceil>real (length (spec_tokens t)) / 500\<rceil>) \<and>
           processedPages (metadata r) = [1..<pageCount (metadata r) + 1]"
    by (simp add: extractOCRText_def wordCount_tokens estimatedPages_def arrayFromLength_upt)
qed

theorem C6_page_estimate_witness:
  "(\<exists>r. extractTXTText (\<lambda>p. Inr (concat (replicate 1000 ''w ''))) ''upload'' = Inr r \<and>
        pageCount (metadata r) = 2 \<and> processedPages (metadata r) = [1, 2]) \<and>
   (\<exists>r. extractDOCXText (\<lambda>p. Inr (concat (replicate 1000 ''w ''), [])) (\<lambda>p. Inl (Error ''gone''))
          ''upload'' = Inr r \<and>
        pageCount (metadata r) = 2 \<and> processedPages (metadata r) = [1, 2]) \<and>
   (\<exists>r. extractOCRText (\<lambda>p. Inr (concat (replicate 1000 ''w ''), 87.5)) ''upload'' = Inr r \<and>
        pageCount (metadata r) = 2 \<and> processedPages (metadata r) = [1, 2])"
proof -
  let ?t = "concat (replicate 1000 ''w '')"
  have len: "length (spec_tokens ?t) = 1000"
    by (simp add: spec_tokens_words)
  have two: "max 1 (nat \<lceil>real 1000 / 500\<rceil>) = 2" "[1..<2 + 1] = [1, 2::nat]"
    by simp code_simp
  note th = C6_page_estimate [of "\<lambda>p. Inr ?t" "''upload''" ?t "\<lambda>p. Inr (?t, [])" "[]"
      "\<lambda>p. Inl (Error ''gone'')" "\<lambda>p. Inr (?t, 87.5)" "87.5"]
  note t1 = th [THEN conjunct1, THEN mp, OF refl]
  note t2 = th [THEN conjunct2, THEN conjunct1, THEN mp, OF refl]
  note t3 = th [THEN conjunct2, THEN conjunct2, THEN mp, OF refl]
  from t1 obtain r1 where r1: "extractTXTText (\<lambda>p. Inr ?t) ''upload'' = Inr r1"
      "length (spec_tokens ?t) = 1000 \<longrightarrow>
         pageCount (metadata r1) = 2 \<and> processedPages (metadata r1) = [1, 2]"
    by blast
  from t2 obtain r2 where r2:
      "extractDOCXText (\<lambda>p. Inr (?t, [])) (\<lambda>p. Inl (Error ''gone'')) ''upload'' = Inr r2"
      "pageCount (metadata r2) = max 1 (nat \<lceil>real (length (spec_tokens ?t)) / 500\<rceil>)"
      "processedPages (metadata r2) = [1..<pageCount (metadata r2) + 1]"
    by blast
  from t3 obtain r3 where r3:
      "extractOCRText (\<lambda>p. Inr (?t, 87.5)) ''upload'' = Inr r3"
      "pageCount (metadata r3) = max 1 (nat \<lceil>real (length (spec_tokens ?t)) / 500\<rceil>)"
      "processedPages (metadata r3) = [1..<pageCount (metadata r3) + 1]"
    by blast
  from r1(2) len have p1: "pageCount (metadata r1) = 2" "processedPages (metadata r1) = [1, 2]"
    by blast+
  from r2(2) have q2: "pageCount (metadata r2) = 2"
    unfolding len using two(1) by simp
  from r2(3) have p2: "processedPages (metadata r2) = [1, 2]"
    unfolding q2 using two(2) by simp
  from r3(2) have q3: "pageCount (metadata r3) = 2"
    unfolding len using two(1) by simp
  from r3(3) have p3: "processedPages (metadata r3) = [1, 2]"
    unfolding q3 using two(2) by simp
  from r1(1) p1 r2(1) q2 p2 r3(1) q3 p3 show ?thesis by blast
qed

section \<open>The table heuristic\<close>

lemma trim_empty_iff: "trim s = [] \<longleftrightarrow> (\<forall>c\<in>set s. isWhiteSpace c)"
proof -
  let ?d = "dropWhile isWhiteSpace s"
  have 1: "trim s = [] \<longleftrightarrow> (\<forall>c\<in>set ?d. isWhiteSpace c)"
    by (simp add: trim_def)
  have 2: "(\<forall>c\<in>set ?d. isWhiteSpace c) \<longleftrightarrow> ?d = []"
  proof
    assume all: "\<forall>c\<in>set ?d. isWhiteSpace c"
    show "?d = []"
    proof (rule ccontr)
      assume ne: "?d \<noteq> []"
      then have "hd ?d \<in> set ?d" by (rule hd_in_set)
      with all have "isWhiteSpace (hd ?d)" by blast
      with hd_dropWhile [OF ne] show False by simp
    qed
  next
    assume e: "?d = []"
    show "\<forall>c\<in>set ?d. isWhiteSpace c" unfolding e by simp
  qed
  have 3: "?d = [] \<longleftrightarrow> (\<forall>c\<in>set s. isWhiteSpace c)"
    by simp
  from 1 2 3 show ?thesis by blast
qed

lemma trim_last: "trim s \<noteq> [] \<Longrightarrow> nonWs (last (trim s))"
proof -
  assume a: "trim s \<noteq> []"
  let ?d = "dropWhile isWhiteSpace (rev (dropWhile isWhiteSpace s))"
  from a have ne: "?d \<noteq> []" by (simp add: trim_def)
  have "last (trim s) = hd ?d" using ne by (simp add: trim_def last_rev)
  with ne show ?thesis using hd_dropWhile [of isWhiteSpace "rev (dropWhile isWhiteSpace s)"] by simp
qed

lemma matchTabOrWs2_pos: "matchTabOrWs2 (c # cs) \<noteq> 0 \<Longrightarrow> isWhiteSpace c"
  by (auto simp: matchTabOrWs2_def matchWs2_def wsRun_def isWhiteSpace_def split: if_splits)

lemma matchTabOrWs2_zero:
  "matchTabOrWs2 (c # cs) = 0 \<Longrightarrow> isWhiteSpace c \<Longrightarrow> cs = [] \<or> nonWs (hd cs)"
  by (cases cs) (auto simp: matchTabOrWs2_def matchWs2_def wsRun_def split: if_splits)

text \<open>
  In a string that does not end in white space, no segment between the separators is a
  non-empty string of white space: the segments that \<open>cell.trim() !== ''\<close> discards are
  the empty ones.
\<close>

lemma segments_not_blank:
  "(s = [] \<or> nonWs (last s)) \<Longrightarrow>
   (seg = [] \<or> (\<exists>c\<in>set seg. nonWs c) \<or> (s \<noteq> [] \<and> nonWs (hd s))) \<Longrightarrow>
   x \<in> set (jsSplit matchTabOrWs2 seg s) \<Longrightarrow> x = [] \<or> (\<exists>c\<in>set x. nonWs c)"
proof (induction matchTabOrWs2 seg s rule: jsSplit.induct)
  case (1 seg)
  then show ?case by auto
next
  case (2 seg c cs)
  have tl: "cs = [] \<or> nonWs (last cs)" using 2(3) by (auto split: if_splits)
  show ?case
  proof (cases "matchTabOrWs2 (c # cs) = 0")
    case True
    have inv: "seg @ [c] = [] \<or> (\<exists>a\<in>set (seg @ [c]). nonWs a) \<or> (cs \<noteq> [] \<and> nonWs (hd cs))"
    proof (cases "isWhiteSpace c")
      case False then show ?thesis by auto
    next
      case ws: True
      from matchTabOrWs2_zero [OF True ws] 2(3) ws show ?thesis by auto
    qed
    from 2(5) True have "x \<in> set (jsSplit matchTabOrWs2 (seg @ [c]) cs)" by simp
    from 2(1) [OF True tl inv this] show ?thesis .
  next
    case False
    then have ws: "isWhiteSpace c" by (rule matchTabOrWs2_pos)
    let ?r = "drop (matchTabOrWs2 (c # cs) - 1) cs"
    have tl': "?r = [] \<or> nonWs (last ?r)" using tl by auto
    from 2(5) False have "x = seg \<or> x \<in> set (jsSplit matchTabOrWs2 [] ?r)" by auto
    then show ?thesis
    proof
      assume "x = seg" with 2(4) ws show ?thesis by auto
    next
      assume "x \<in> set (jsSplit matchTabOrWs2 [] ?r)"
      from 2(2) [OF False tl' _ this] show ?thesis by simp
    qed
  qed
qed

lemma cells_of_trimmed:
  "filter (\<lambda>cell. trim cell \<noteq> []) (jsSplit matchTabOrWs2 [] (trim raw)) = spec_rowCells (trim raw)"
proof -
  have "\<And>x. x \<in> set (jsSplit matchTabOrWs2 [] (trim raw)) \<Longrightarrow> (trim x \<noteq> []) = (x \<noteq> [])"
  proof -
    fix x assume "x \<in> set (jsSplit matchTabOrWs2 [] (trim raw))"
    from segments_not_blank [OF _ _ this] trim_last [of raw]
    have "x = [] \<or> (\<exists>c\<in>set x. nonWs c)" by auto
    then show "(trim x \<noteq> []) = (x \<noteq> [])" by (auto simp: trim_empty_iff)
  qed
  then show ?thesis unfolding spec_rowCells_def by (auto intro: filter_cong)
qed

text \<open>The index loop is the left fold of its body over the lines that remain.\<close>

lemma linesLoop_foldl:
  "linesLoop lines i st = foldl (\<lambda>st l. lineStep l st) st (drop i lines)"
proof (induction lines i st rule: linesLoop.induct)
  case (1 lines i st)
  show ?case
  proof (cases "i < length lines")
    case True
    then have "drop i lines = lines ! i # drop (Suc i) lines" by (simp add: Cons_nth_drop_Suc)
    with 1 True show ?thesis by (subst linesLoop.simps) simp
  next
    case False
    then show ?thesis by (subst linesLoop.simps) simp
  qed
qed

lemma lineStep_spec:
  "lineStep l st =
     (if spec_isRowCandidate (trim l) then
        (if length (spec_rowCells (trim l)) > 1
         then st\<lparr>currentTable := currentTable st @ [spec_rowCells (trim l)]\<rparr> else st)
      else if length (currentTable st) > 1
        then st\<lparr>extractedTables' := pushTable st, tableIndex' := tableIndex' st + 1, currentTable := []\<rparr>
      else st\<lparr>currentTable := []\<rparr>)"
  by (simp add: lineStep_def Let_def cells_of_trimmed spec_isRowCandidate_def)

lemma foldl_spec:
  "(let st' = foldl (\<lambda>st l. lineStep l st) st ls
    in if length (currentTable st') > 1 then pushTable st' else extractedTables' st') =
     extractedTables' st @ spec_tableHeuristic (currentTable st) (tableIndex' st) ls"
proof (induction ls arbitrary: st)
  case Nil
  then show ?case by (simp add: pushTable_def)
next
  case (Cons l ls)
  show ?case
    using Cons.IH [of "lineStep l st"] by (simp add: Let_def) (simp add: lineStep_spec pushTable_def)
qed

lemma tableHeuristic_spec: "tableHeuristic lines = spec_tableHeuristic [] 0 lines"
  using foldl_spec [of "\<lparr>currentTable = [], tableIndex' = 0, extractedTables' = []\<rparr>" lines]
  by (simp add: tableHeuristic_def linesLoop_foldl Let_def)

lemma wellFormed_mkTable:
  "1 < length acc \<Longrightarrow> list_all (\<lambda>row. 1 < length row) acc \<Longrightarrow>
   wellFormedTable (mkTable 1 k (map (map Str) acc))"
  by (cases acc) (simp_all add: wellFormedTable_def mkTable_def firstRowLength_def list_all_iff)

lemma spec_tables_wellFormed:
  "list_all (\<lambda>row. 1 < length row) acc \<Longrightarrow> list_all wellFormedTable (spec_tableHeuristic acc k ls)"
proof (induction ls arbitrary: acc k)
  case Nil
  then show ?case by (simp add: wellFormed_mkTable [simplified])
next
  case (Cons l ls)
  then show ?case by (simp add: wellFormed_mkTable [simplified])
qed

lemma upt_shift: "k # [Suc k..<Suc k + n] = [k..<k + Suc n]"
  by (simp add: upt_conv_Cons)

lemma spec_tables_index:
  "map tableIndex (spec_tableHeuristic acc k ls) = [k..<k + length (spec_tableHeuristic acc k ls)]"
proof (induction ls arbitrary: acc k)
  case Nil
  then show ?case by (simp add: mkTable_def)
next
  case (Cons l ls)
  show ?case
  proof (cases "spec_isRowCandidate (trim l)")
    case True
    then show ?thesis using Cons.IH by simp
  next
    case False
    show ?thesis
    proof (cases "1 < length acc")
      case True
      have "map tableIndex (spec_tableHeuristic acc k (l # ls)) =
            k # [Suc k..<Suc k + length (spec_tableHeuristic [] (Suc k) ls)]"
        using False True Cons.IH [of "[]" "Suc k"] by (simp add: mkTable_def)
      also have "\<dots> = [k..<k + Suc (length (spec_tableHeuristic [] (Suc k) ls))]"
        by (rule upt_shift)
      also have "Suc (length (spec_tableHeuristic [] (Suc k) ls)) =
                 length (spec_tableHeuristic acc k (l # ls))"
        using False True by simp
      finally show ?thesis .
    next
      case short: False
      with False show ?thesis using Cons.IH [of "[]" k] by simp
    qed
  qed
qed

text \<open>
  C2. For every sequence of lines the table heuristic of the word-processor extractor is
  the heuristic of the specification: each line is trimmed; it is a row candidate exactly
  when it contains a tab or splits into more than two segments on runs of two or more white
  space characters; its cells are the non-empty segments between tabs and such runs, pushed
  when there is more than one; an accumulator is emitted only with more than one row, also
  at the end. Every emitted table has page number 1, more than one row, the number of its
  rows and the cell count of its first row as its structure, and the tables are numbered
  from 0 in the order of discovery. The two inputs of the specification give one table of
  two rows and three columns, and no table.
\<close>

theorem C2_table_heuristic:
  "tableHeuristic lines = spec_tableHeuristic [] 0 lines \<and>
   list_all wellFormedTable (tableHeuristic lines) \<and>
   map tableIndex (tableHeuristic lines) = [0..<length (tableHeuristic lines)] \<and>
   tableHeuristic
     [''a'' @ [TAB] @ ''b'' @ [TAB] @ ''c'', ''1'' @ [TAB] @ ''2'' @ [TAB] @ ''3'',
      ''not a table line''] =
     [\<lparr>pageNumber = 1, tableIndex = 0,
       data = [[Str ''a'', Str ''b'', Str ''c''], [Str ''1'', Str ''2'', Str ''3'']],
       structure' = \<lparr>rows = 2, columns = 3\<rparr>\<rparr>] \<and>
   tableHeuristic [''x'' @ [TAB] @ ''y'' @ [TAB] @ ''z'', ''prose''] = []"
proof (intro conjI)
  show "tableHeuristic lines = spec_tableHeuristic [] 0 lines"
    by (rule tableHeuristic_spec)
  show "list_all wellFormedTable (tableHeuristic lines)"
    using spec_tables_wellFormed [of "[]" 0 lines] by (simp add: tableHeuristic_spec)
  show "map tableIndex (tableHeuristic lines) = [0..<length (tableHeuristic lines)]"
    using spec_tables_index [of "[]" 0 lines] by (simp add: tableHeuristic_spec)
  show "tableHeuristic
     [''a'' @ [TAB] @ ''b'' @ [TAB] @ ''c'', ''1'' @ [TAB] @ ''2'' @ [TAB] @ ''3'',
      ''not a table line''] =
     [\<lparr>pageNumber = 1, tableIndex = 0,
       data = [[Str ''a'', Str ''b'', Str ''c''], [Str ''1'', Str ''2'', Str ''3'']],
       structure' = \<lparr>rows = 2, columns = 3\<rparr>\<rparr>]"
    by code_simp
  show "tableHeuristic [''x'' @ [TAB] @ ''y'' @ [TAB] @ ''z'', ''prose''] = []"
    by code_simp
qed

section \<open>Spreadsheets\<close>









section \<open>Extraction confidence\<close>

text \<open>
  C9. The confidence of an extraction result is 100 for plain text, 98 for a spreadsheet,
  95 for a page-structured document, 95 for a word-processor document whose converter gave
  no messages and 85 otherwise, and for an image the confidence of the OCR engine rounded
  to the nearest integer.
\<close>

theorem C9_extraction_confidence:
  "(extractTXTText readFile p1 = Inr r1 \<longrightarrow> extractionConfidence (metadata r1) = 100) \<and>
   (extractExcelData readWorkbook p2 = Inr r2 \<longrightarrow> extractionConfidence (metadata r2) = 98) \<and>
   (extractPDFText loadPdf p3 = Inr r3 \<longrightarrow> extractionConfidence (metadata r3) = 95) \<and>
   (extractDOCXText extractRawText extractRawText2 p4 = Inr r4 \<longrightarrow>
      (\<exists>t messages. extractRawText p4 = Inr (t, messages) \<and>
         extractionConfidence (metadata r4) = (if messages = [] then 95 else 85))) \<and>
   (extractOCRText recognize p5 = Inr r5 \<longrightarrow>
      (\<exists>t confidence. recognize p5 = Inr (t, confidence) \<and>
         extractionConfidence (metadata r5) = round confidence \<and>
         \<bar>real_of_int (extractionConfidence (metadata r5)) - confidence\<bar> \<le> 1 / 2))"
proof (intro conjI impI)
  assume "extractTXTText readFile p1 = Inr r1"
  then show "extractionConfidence (metadata r1) = 100"
    by (auto simp: extractTXTText_def split: sum.splits)
next
  assume "extractExcelData readWorkbook p2 = Inr r2"
  then show "extractionConfidence (metadata r2) = 98"
    by (auto simp: extractExcelData_def Let_def split: sum.splits)
next
  assume "extractPDFText loadPdf p3 = Inr r3"
  then show "extractionConfidence (metadata r3) = 95"
    by (auto simp: extractPDFText_def split: sum.splits)
next
  assume a: "extractDOCXText extractRawText extractRawText2 p4 = Inr r4"
  then obtain t messages where x: "extractRawText p4 = Inr (t, messages)"
    by (cases "extractRawText p4") (auto simp: extractDOCXText_def)
  from a x have "extractionConfidence (metadata r4) = (if messages = [] then 95 else 85)"
    by (auto simp: extractDOCXText_def)
  with x show "\<exists>t messages. extractRawText p4 = Inr (t, messages) \<and>
         extractionConfidence (metadata r4) = (if messages = [] then 95 else 85)"
    by blast
next
  assume "extractOCRText recognize p5 = Inr r5"
  then show "\<exists>t confidence. recognize p5 = Inr (t, confidence) \<and>
         extractionConfidence (metadata r5) = round confidence \<and>
         \<bar>real_of_int (extractionConfidence (metadata r5)) - confidence\<bar> \<le> 1 / 2"
    using of_int_round_abs_le by (auto simp: extractOCRText_def mathRound_def round_def split: sum.splits)
qed


lemma exampleEnv_simps [simp]:
  "dateNow exampleEnv n = int n" "rejection exampleEnv n = None" "newObjectId exampleEnv = ''doc1''"
  by (simp_all add: exampleEnv_def)

lemma exampleEnv_readers [simp]:
  "readFileSync exampleEnv p = (if p = ''uploads/notes.txt'' then Inr ''hello world'' else Inl (Error ''ENOENT''))"
  "mammothExtractRawText exampleEnv p = (if p = ''uploads/report.docx'' then Inr (''one two'', []) else Inl (Error ''ENOENT''))"
  "mammothExtractRawText2 exampleEnv p = (if p = ''uploads/report.docx'' then Inr (''one two'', []) else Inl (Error ''ENOENT''))"
  "xlsxReadFile exampleEnv p = (if p = ''uploads/book.xlsx'' then Inr exampleWorkbook else Inl (Error ''ENOENT''))"
  "pdfLoad exampleEnv p = (if p = ''uploads/paper.pdf'' then Inr examplePdf else Inl (Error ''ENOENT''))"
  "tesseractRecognize exampleEnv p = (if p = ''uploads/scan.png'' then Inr (''two words'', 87.5) else Inl (Error ''ENOENT''))"
  by (simp_all add: exampleEnv_def)

theorem C9_extraction_confidence_witness:
  "(\<exists>r. extractTXTText (readFileSync exampleEnv) ''uploads/notes.txt'' = Inr r \<and>
        extractionConfidence (metadata r) = 100) \<and>
   (\<exists>r. extractExcelData (xlsxReadFile exampleEnv) ''uploads/book.xlsx'' = Inr r \<and>
        extractionConfidence (metadata r) = 98) \<and>
   (\<exists>r. extractPDFText (pdfLoad exampleEnv) ''uploads/paper.pdf'' = Inr r \<and>
        extractionConfidence (metadata r) = 95) \<and>
   (\<exists>r. extractDOCXText (mammothExtractRawText exampleEnv) (mammothExtractRawText2 exampleEnv)
          ''uploads/report.docx'' = Inr r \<and>
        extractionConfidence (metadata r) = 95) \<and>
   (\<exists>r. extractOCRText (tesseractRecognize exampleEnv) ''uploads/scan.png'' = Inr r \<and>
        extractionConfidence (metadata r) = 88)"
proof -
  obtain r1 where e1: "extractTXTText (readFileSync exampleEnv) ''uploads/notes.txt'' = Inr r1"
    by (simp add: extractTXTText_def)
  obtain r2 where e2: "extractExcelData (xlsxReadFile exampleEnv) ''uploads/book.xlsx'' = Inr r2"
    by (simp add: extractExcelData_def Let_def)
  obtain r3 where e3: "extractPDFText (pdfLoad exampleEnv) ''uploads/paper.pdf'' = Inr r3"
    by (simp add: extractPDFText_def examplePdf_def)
  obtain r4 where e4: "extractDOCXText (mammothExtractRawText exampleEnv)
      (mammothExtractRawText2 exampleEnv) ''uploads/report.docx'' = Inr r4"
    by (simp add: extractDOCXText_def)
  obtain r5 where e5: "extractOCRText (tesseractRecognize exampleEnv) ''uploads/scan.png'' = Inr r5"
    by (simp add: extractOCRText_def)
  note th = C9_extraction_confidence [where readFile = "readFileSync exampleEnv"
      and ?p1.0 = "''uploads/notes.txt''" and ?r1.0 = r1
      and readWorkbook = "xlsxReadFile exampleEnv" and ?p2.0 = "''uploads/book.xlsx''" and ?r2.0 = r2
      and loadPdf = "pdfLoad exampleEnv" and ?p3.0 = "''uploads/paper.pdf''" and ?r3.0 = r3
      and extractRawText = "mammothExtractRawText exampleEnv"
      and ?extractRawText2.0 = "mammothExtractRawText2 exampleEnv"
      and ?p4.0 = "''uploads/report.docx''" and ?r4.0 = r4
      and recognize = "tesseractRecognize exampleEnv" and ?p5.0 = "''uploads/scan.png''" and ?r5.0 = r5]
  from th e1 have c1: "extractionConfidence (metadata r1) = 100" by blast
  from th e2 have c2: "extractionConfidence (metadata r2) = 98" by blast
  from th e3 have c3: "extractionConfidence (metadata r3) = 95" by blast
  from th e4 obtain t messages where
    "mammothExtractRawText exampleEnv ''uploads/report.docx'' = Inr (t, messages)"
    "extractionConfidence (metadata r4) = (if messages = [] then 95 else 85)" by blast
  then have c4: "extractionConfidence (metadata r4) = 95" by simp
  from th e5 obtain t' confidence where
    rc: "tesseractRecognize exampleEnv ''uploads/scan.png'' = Inr (t', confidence)" and
    cf: "extractionConfidence (metadata r5) = round confidence" by blast
  from rc have cv: "confidence = 87.5" by simp
  have r88: "round (87.5 :: real) = 88" by (simp add: round_def)
  from cf have c5: "extractionConfidence (metadata r5) = 88" unfolding cv r88 .
  from e1 c1 e2 c2 e3 c3 e4 c4 e5 c5 show ?thesis by blast
qed

section \<open>Progress tracker and registry\<close>

lemma updateProgress_eq:
  "updateProgress now p step t =
     t\<lparr>progress := min 100 (max 0 p), currentStep := step,
       emitted := emitted t @ [ProgressEvent (documentId t) (min 100 (max 0 p)) step (status t) (now - startTime t)]\<rparr>"
  by (simp add: updateProgress_def Let_def emit_def)

lemma setStatus_eq:
  "setStatus now st step t =
     t\<lparr>status := st, currentStep := step,
       emitted := emitted t @ [StatusEvent (documentId t) st step (progress t) (now - startTime t)]\<rparr>"
  by (simp add: setStatus_def Let_def emit_def)

lemma fail_eq:
  "fail now1 now2 err t =
     (if ''error'' \<in> set (listeners t)
      then ((setStatus now1 ''failed'' (''Error: '' @ message err) t)
              \<lparr>emitted := emitted t @
                 [StatusEvent (documentId t) ''failed'' (''Error: '' @ message err) (progress t) (now1 - startTime t),
                  ErrorEvent (documentId t) (message err) (now2 - startTime t)]\<rparr>, None)
      else (setStatus now1 ''failed'' (''Error: '' @ message err) t,
            Some (ErrorEvent (documentId t) (message err) (now2 - startTime t))))"
  by (simp add: fail_def Let_def emit_def setStatus_eq)

lemma upload_ok:
  "fileExt \<in> set allowedTypes \<Longrightarrow> size' file \<le> 10 * 1024 * 1024 \<Longrightarrow> trim (originalname file) \<noteq> [] \<Longrightarrow>
   rejection e 0 = None \<Longrightarrow>
   uploadDocument e (Some file) fileExt s =
     (\<lparr>statusCode = 201, body = UploadBody (newObjectId e) (originalname file) fileExt ''pending'' (dateNow e 0)\<rparr>,
      s\<lparr>heap := (heap s)(nextRef s \<mapsto> setStatus (dateNow e 2) ''processing'' ''Starting document processing''
                                        (newProgressTracker (dateNow e 1) (newObjectId e))),
        nextRef := nextRef s + 1,
        activeProgress := (activeProgress s)(newObjectId e \<mapsto> nextRef s),
        documents := (documents s)(newObjectId e \<mapsto> newDocument file fileExt (dateNow e 0))\<rparr>,
      Some (newObjectId e, path file, fileExt, nextRef s))"
proof -
  assume a: "fileExt \<in> set allowedTypes" "size' file \<le> 10 * 1024 * 1024" "trim (originalname file) \<noteq> []"
    "rejection e 0 = None"
  from a(3) have ne: "originalname file \<noteq> []" by (auto simp: trim_def)
  show ?thesis using a ne
    by (simp add: uploadDocument_def save_def createProgressTracker_def onTracker_def Let_def)
qed

lemma notesUploaded_eq:
  "notesUploaded =
     \<lparr>heap = (\<lambda>r. None)(0 \<mapsto> setStatus 2 ''processing'' ''Starting document processing'' (newProgressTracker 1 ''doc1'')),
      nextRef = 1, activeProgress = (\<lambda>d. None)(''doc1'' \<mapsto> 0),
      documents = (\<lambda>d. None)(''doc1'' \<mapsto> newDocument notesFile ''txt'' 0),
      writes = [], invoked = [], timers = []\<rparr>"
  unfolding notesUploaded_def
  by (subst upload_ok) (simp_all add: allowedTypes_def notesFile_def emptySys_def trim_def isWhiteSpace_def)


lemma lostUploaded_eq:
  "lostUploaded =
     \<lparr>heap = (\<lambda>r. None)(0 \<mapsto> setStatus 2 ''processing'' ''Starting document processing'' (newProgressTracker 1 ''doc1'')),
      nextRef = 1, activeProgress = (\<lambda>d. None)(''doc1'' \<mapsto> 0),
      documents = (\<lambda>d. None)(''doc1'' \<mapsto> newDocument lostFile ''txt'' 0),
      writes = [], invoked = [], timers = []\<rparr>"
  unfolding lostUploaded_def
  by (subst upload_ok) (simp_all add: allowedTypes_def lostFile_def emptySys_def trim_def isWhiteSpace_def)

lemma scanUploaded_eq:
  "scanUploaded =
     \<lparr>heap = (\<lambda>r. None)(0 \<mapsto> setStatus 2 ''processing'' ''Starting document processing'' (newProgressTracker 1 ''doc1'')),
      nextRef = 1, activeProgress = (\<lambda>d. None)(''doc1'' \<mapsto> 0),
      documents = (\<lambda>d. None)(''doc1'' \<mapsto> newDocument scanFile ''png'' 0),
      writes = [], invoked = [], timers = []\<rparr>"
  unfolding scanUploaded_def
  by (subst upload_ok) (simp_all add: allowedTypes_def scanFile_def emptySys_def trim_def isWhiteSpace_def)





section \<open>The orchestrator\<close>

lemma progressValues_updateProgress:
  "progressValues (updateProgress now p step t) = progressValues t @ [min 100 (max 0 p)]"
  by (simp add: updateProgress_eq progressValues_def)

lemma progressValues_setStatus: "progressValues (setStatus now st step t) = progressValues t"
  by (simp add: setStatus_eq progressValues_def)

lemma progressValues_complete:
  "progressValues (complete now1 now2 t) = progressValues t @ [100]"
  by (simp add: complete_def progressValues_updateProgress progressValues_setStatus)

lemma progress_complete: "progress (complete now1 now2 t) = 100"
  by (simp add: complete_def updateProgress_eq)

lemma onTracker_frame [simp]:
  "invoked (onTracker r f s) = invoked s"
  "writes (onTracker r f s) = writes s"
  "documents (onTracker r f s) = documents s"
  "activeProgress (onTracker r f s) = activeProgress s"
  "timers (onTracker r f s) = timers s"
  by (simp_all add: onTracker_def split: option.splits)

lemma onTracker_heap [simp]: "heap (onTracker r f s) r = map_option f (heap s r)"
  by (simp add: onTracker_def split: option.splits)

lemma findByIdAndUpdate_frame:
  "findByIdAndUpdate rej docId u s = Inr s' \<Longrightarrow>
     heap s' = heap s \<and> invoked s' = invoked s \<and> writes s' = writes s @ [(docId, u)] \<and> rej = None"
  by (auto simp: findByIdAndUpdate_def split: option.splits)

lemma failOn_frame:
  "invoked (snd (failOn r n1 n2 err s)) = invoked s \<and> writes (snd (failOn r n1 n2 err s)) = writes s
   \<and> documents (snd (failOn r n1 n2 err s)) = documents s"
  by (simp add: failOn_def split: option.splits)

lemma dispatch_unsupported:
  "ftype \<notin> set allowedTypes \<Longrightarrow> dispatch e fpath ftype r s = (Inl (Error ''Unsupported file type''), s)"
  by (simp add: dispatch_def allowedTypes_def)

lemma dispatch_heap:
  "heap (snd (dispatch e fpath ftype r s)) r =
     (if isImage ftype then map_option (updateProgress (dateNow e 5) 50 ''Performing OCR on image'') (heap s r)
      else heap s r)"
  by (simp add: dispatch_def isImage_def)

lemma tryBlock_unsupported:
  "ftype \<notin> set allowedTypes \<Longrightarrow> rejection e 1 = None \<Longrightarrow>
   fst (tryBlock e docId fpath ftype r s) = Some (Error ''Unsupported file type'') \<and>
   writes (snd (tryBlock e docId fpath ftype r s)) = writes s @ [(docId, SetProcessing)] \<and>
   invoked (snd (tryBlock e docId fpath ftype r s)) = invoked s"
  by (simp add: tryBlock_def Let_def dispatch_unsupported findByIdAndUpdate_def)

lemma tryBlock_invoked_unsupported:
  "ftype \<notin> set allowedTypes \<Longrightarrow> invoked (snd (tryBlock e docId fpath ftype r s)) = invoked s"
  by (simp add: tryBlock_def Let_def dispatch_unsupported findByIdAndUpdate_def split: option.splits)

lemma processDocument_invoked:
  "invoked (snd (processDocument e docId fpath ftype r s)) = invoked (snd (tryBlock e docId fpath ftype r s))"
proof -
  obtain res s1 where tb: "tryBlock e docId fpath ftype r s = (res, s1)" by (cases "tryBlock e docId fpath ftype r s")
  show ?thesis
  proof (cases res)
    case None
    with tb show ?thesis by (simp add: processDocument_def scheduleCleanup_def)
  next
    case (Some err)
    obtain th s2 where fo: "failOn r (dateNow e 10) (dateNow e 11) err s1 = (th, s2)"
      by (cases "failOn r (dateNow e 10) (dateNow e 11) err s1")
    from failOn_frame [of r "dateNow e 10" "dateNow e 11" err s1] fo have inv: "invoked s2 = invoked s1" by simp
    show ?thesis using tb Some fo inv
      by (auto simp: processDocument_def scheduleCleanup_def findByIdAndUpdate_def split: option.splits sum.splits)
  qed
qed

text \<open>
  The jobs that reach \<open>processDocument\<close>: its only call is the one \<open>uploadDocument\<close>
  makes, and the type it passes is one of the allowed types.
\<close>

lemma uploadDocument_job_type:
  "uploadDocument e reqFile fileExt s = (resp, s', Some (jobId, jpath, jtype, jr)) \<Longrightarrow>
   jtype = fileExt \<and> jtype \<in> set allowedTypes"
proof -
  assume up: "uploadDocument e reqFile fileExt s = (resp, s', Some (jobId, jpath, jtype, jr))"
  then obtain upfile where f: "reqFile = Some upfile"
    by (cases reqFile) (auto simp: uploadDocument_def)
  from up f have ok: "fileExt \<in> set allowedTypes" "size' upfile \<le> 10 * 1024 * 1024"
      "trim (originalname upfile) \<noteq> []" "rejection e 0 = None"
    by (auto simp: uploadDocument_def save_def split: if_splits option.splits)
  from upload_ok [OF ok, of s] up f have j: "jtype = fileExt" by auto
  from ok(1) have "jtype \<in> set allowedTypes" unfolding j .
  with j show ?thesis by (rule conjI)
qed

text \<open>
  C1. For every file-type tag outside the supported set, the job is refused before any of
  it runs: \<open>uploadDocument\<close> answers 400 \<open>INVALID_FILE_TYPE\<close>, hands no job to
  \<open>processDocument\<close> and leaves the state as it was, so no extractor is invoked and no
  Document Record is created or set to \<open>processing\<close>; the dispatch on such a tag calls no
  extractor, changes nothing and yields the error \<open>Unsupported file type\<close>; and every
  job that \<open>uploadDocument\<close> does hand over has a supported type.
\<close>

theorem C1_unsupported_type:
  "(ftype \<notin> set allowedTypes \<longrightarrow>
      uploadDocument e (Some upfile) ftype s =
        (\<lparr>statusCode = 400, body = ErrorBody ''Invalid file type'' ''INVALID_FILE_TYPE''\<rparr>, s, None) \<and>
      dispatch e fpath ftype r s = (Inl (Error ''Unsupported file type''), s)) \<and>
   (uploadDocument e reqFile fileExt s = (resp, s', Some (jobId, jpath, jtype, jr)) \<longrightarrow>
      jtype = fileExt \<and> jtype \<in> set allowedTypes)"
proof (intro conjI impI)
  assume "ftype \<notin> set allowedTypes"
  then show "uploadDocument e (Some upfile) ftype s =
        (\<lparr>statusCode = 400, body = ErrorBody ''Invalid file type'' ''INVALID_FILE_TYPE''\<rparr>, s, None)"
    by (simp add: uploadDocument_def)
next
  assume "ftype \<notin> set allowedTypes"
  then show "dispatch e fpath ftype r s = (Inl (Error ''Unsupported file type''), s)"
    by (rule dispatch_unsupported)
next
  assume up: "uploadDocument e reqFile fileExt s = (resp, s', Some (jobId, jpath, jtype, jr))"
  from uploadDocument_job_type [OF up] show "jtype = fileExt" by (rule conjunct1)
  from uploadDocument_job_type [OF up] show "jtype \<in> set allowedTypes" by (rule conjunct2)
qed

theorem C1_unsupported_type_witness:
  "''bmp'' \<notin> set allowedTypes \<and>
   uploadDocument exampleEnv (Some lostFile) ''bmp'' emptySys =
     (\<lparr>statusCode = 400, body = ErrorBody ''Invalid file type'' ''INVALID_FILE_TYPE''\<rparr>,
      emptySys, None) \<and>
   dispatch exampleEnv ''uploads/lost.bmp'' ''bmp'' 0 emptySys =
     (Inl (Error ''Unsupported file type''), emptySys) \<and>
   uploadDocument exampleEnv (Some notesFile) ''txt'' emptySys =
     (\<lparr>statusCode = 201, body = UploadBody ''doc1'' ''notes.txt'' ''txt'' ''pending'' 0\<rparr>,
      notesUploaded, Some (''doc1'', ''uploads/notes.txt'', ''txt'', 0)) \<and>
   ''txt'' \<in> set allowedTypes"
proof -
  have a: "''bmp'' \<notin> set allowedTypes" by (simp add: allowedTypes_def)
  have up: "uploadDocument exampleEnv (Some notesFile) ''txt'' emptySys =
     (\<lparr>statusCode = 201, body = UploadBody ''doc1'' ''notes.txt'' ''txt'' ''pending'' 0\<rparr>,
      notesUploaded, Some (''doc1'', ''uploads/notes.txt'', ''txt'', 0))"
    unfolding notesUploaded_eq
    by (subst upload_ok) (simp_all add: allowedTypes_def notesFile_def emptySys_def trim_def isWhiteSpace_def)
  note th = C1_unsupported_type [where ftype = "''bmp''" and e = exampleEnv and upfile = lostFile
      and s = emptySys and fpath = "''uploads/lost.bmp''" and r = 0
      and reqFile = "Some notesFile" and fileExt = "''txt''" and s' = notesUploaded
      and resp = "\<lparr>statusCode = 201, body = UploadBody ''doc1'' ''notes.txt'' ''txt'' ''pending'' 0\<rparr>"
      and jobId = "''doc1''" and jpath = "''uploads/notes.txt''" and jtype = "''txt''" and jr = 0]
  from th a up show ?thesis by blast
qed

text \<open>
  C8. In every successful job the progress values the tracker reports are, in this order,
  10, 30, 50 for an image only, 80 and 100, after the 0 of a tracker just created; the
  sequence is non-decreasing; and \<open>updateProgress\<close> always leaves the progress at its
  argument clamped to [0, 100].
\<close>

theorem C8_progress_checkpoints:
  "tryBlock e docId fpath ftype r s = (None, s') \<Longrightarrow> heap s r = Some t \<Longrightarrow>
     (\<exists>t'. heap s' r = Some t' \<and>
           progressValues t' =
             progressValues t @ [10, 30] @ (if isImage ftype then [50] else []) @ [80, 100] \<and>
           progress t' = 100) \<and>
     sorted (0 # [10, 30] @ (if isImage ftype then [50] else []) @ [80, 100 :: real]) \<and>
     progress (setStatus now2 st step (newProgressTracker now1 docId)) = 0 \<and>
     progress (updateProgress now p step t) = min 100 (max 0 p) \<and>
     0 \<le> progress (updateProgress now p step t) \<and> progress (updateProgress now p step t) \<le> 100"
proof (intro conjI)
  assume tb: "tryBlock e docId fpath ftype r s = (None, s')" and h: "heap s r = Some t"
  from tb obtain s1 where 1: "findByIdAndUpdate (rejection e 1) docId SetProcessing s = Inr s1"
    by (auto simp: tryBlock_def split: sum.splits)
  define s3 where "s3 = onTracker r (updateProgress (dateNow e 4) 30
                                   (''Processing '' @ toUpperCase ftype @ '' file''))
                          (onTracker r (updateProgress (dateNow e 3) 10 ''Reading file'') s1)"
  from tb 1 obtain extractedData s4 where 2: "dispatch e fpath ftype r s3 = (Inr extractedData, s4)"
    by (auto simp: tryBlock_def Let_def s3_def split: sum.splits prod.splits)
  define s5 where "s5 = onTracker r (updateProgress (dateNow e 6) 80 ''Saving extracted data'') s4"
  from tb 1 2 obtain s6 where
    3: "findByIdAndUpdate (rejection e 2) docId (SetCompleted extractedData (dateNow e 7)) s5 = Inr s6"
    and 4: "s' = onTracker r (complete (dateNow e 8) (dateNow e 9)) s6"
    by (auto simp: tryBlock_def Let_def s3_def s5_def split: sum.splits prod.splits)
  let ?t3 = "updateProgress (dateNow e 4) 30 (''Processing '' @ toUpperCase ftype @ '' file'')
               (updateProgress (dateNow e 3) 10 ''Reading file'' t)"
  let ?t4 = "if isImage ftype then updateProgress (dateNow e 5) 50 ''Performing OCR on image'' ?t3 else ?t3"
  let ?t5 = "updateProgress (dateNow e 6) 80 ''Saving extracted data'' ?t4"
  let ?t' = "complete (dateNow e 8) (dateNow e 9) ?t5"
  have h1: "heap s1 r = Some t" using findByIdAndUpdate_frame [OF 1] h by simp
  have h3: "heap s3 r = Some ?t3" by (simp add: s3_def h1)
  have h4: "heap s4 r = Some ?t4" using dispatch_heap [of e fpath ftype r s3] 2 h3 by simp
  have h5: "heap s5 r = Some ?t5" by (simp add: s5_def h4)
  have h6: "heap s6 r = Some ?t5" using findByIdAndUpdate_frame [OF 3] h5 by simp
  have h': "heap s' r = Some ?t'" by (simp add: 4 h6)
  have pv: "progressValues ?t' =
      progressValues t @ [10, 30] @ (if isImage ftype then [50] else []) @ [80, 100]"
    by (simp add: progressValues_complete progressValues_updateProgress)
  from h' pv progress_complete
  show "\<exists>t'. heap s' r = Some t' \<and>
           progressValues t' =
             progressValues t @ [10, 30] @ (if isImage ftype then [50] else []) @ [80, 100] \<and>
           progress t' = 100"
    by blast
next
  show "sorted (0 # [10, 30] @ (if isImage ftype then [50] else []) @ [80, 100 :: real])"
    by simp
  show "progress (setStatus now2 st step (newProgressTracker now1 docId)) = 0"
    by (simp add: setStatus_eq newProgressTracker_def)
  show "progress (updateProgress now p step t) = min 100 (max 0 p)"
    by (simp add: updateProgress_eq)
  show "0 \<le> progress (updateProgress now p step t)"
    by (simp add: updateProgress_eq)
  show "progress (updateProgress now p step t) \<le> 100"
    by (simp add: updateProgress_eq)
qed

lemma scan_tryBlock:
  "fst (tryBlock exampleEnv ''doc1'' ''uploads/scan.png'' ''png'' 0 scanUploaded) = None"
  by (simp add: tryBlock_def Let_def dispatch_def findByIdAndUpdate_def extractOCRText_def
        split: prod.splits)

theorem C8_progress_checkpoints_witness:
  "tryBlock exampleEnv ''doc1'' ''uploads/scan.png'' ''png'' 0 scanUploaded =
     (None, snd (tryBlock exampleEnv ''doc1'' ''uploads/scan.png'' ''png'' 0 scanUploaded)) \<and>
   (\<exists>t'. heap (snd (tryBlock exampleEnv ''doc1'' ''uploads/scan.png'' ''png'' 0 scanUploaded)) 0 = Some t' \<and>
         progressValues t' = [10, 30, 50, 80, 100] \<and> progress t' = 100)"
proof -
  let ?t = "setStatus 2 ''processing'' ''Starting document processing'' (newProgressTracker 1 ''doc1'')"
  have tb: "tryBlock exampleEnv ''doc1'' ''uploads/scan.png'' ''png'' 0 scanUploaded =
     (None, snd (tryBlock exampleEnv ''doc1'' ''uploads/scan.png'' ''png'' 0 scanUploaded))"
    using scan_tryBlock by (simp add: prod_eq_iff)
  have h: "heap scanUploaded 0 = Some ?t" by (simp add: scanUploaded_eq)
  have pv: "progressValues ?t = []" by (simp add: progressValues_setStatus) (simp add: progressValues_def newProgressTracker_def)
  have im: "isImage ''png''" by (simp add: isImage_def)
  from C8_progress_checkpoints [OF tb h, THEN conjunct1] pv im tb show ?thesis by simp
qed

text \<open>
  C10. For a document id that has a record and no tracker in the registry, the progress
  query answers 200 with the record's status, progress 100 when the status is
  \<open>completed\<close> and 0 otherwise, the status as step, and elapsed 0.
\<close>

theorem C10_progress_fallback:
  "getProgressTracker docId s = None \<Longrightarrow> documents s docId = Some d \<Longrightarrow>
   getDocumentProgress now None docId s =
     \<lparr>statusCode = 200,
      body = ProgressBody docId (processingStatus d)
               (if processingStatus d = ''completed'' then 100 else 0) (processingStatus d) 0\<rparr>"
  by (simp add: getDocumentProgress_def findById_def)


lemma notesDone_document:
  "map_option processingStatus (documents notesDone ''doc1'') = Some ''completed''"
  by (simp add: notesDone_def removeProgressTracker_def processDocument_def tryBlock_def Let_def
        dispatch_def findByIdAndUpdate_def extractTXTText_def scheduleCleanup_def notesUploaded_eq
        split: prod.splits)

theorem C10_progress_fallback_witness:
  "getProgressTracker ''doc1'' notesDone = None \<and>
   getDocumentProgress 99 None ''doc1'' notesDone =
     \<lparr>statusCode = 200, body = ProgressBody ''doc1'' ''completed'' 100 ''completed'' 0\<rparr>"
proof -
  have g: "getProgressTracker ''doc1'' notesDone = None"
    by (simp add: notesDone_def removeProgressTracker_def getProgressTracker_def)
  from notesDone_document obtain d where d: "documents notesDone ''doc1'' = Some d"
    and st: "processingStatus d = ''completed''" by auto
  from C10_progress_fallback [OF g d, of 99] st g show ?thesis by simp
qed

section \<open>The writes of a job\<close>

text \<open>
  The record of a job that starts \<open>pending\<close> and without an error message satisfies the
  invariant after \<open>processDocument\<close>, and a job makes at most one terminal write.
\<close>

lemma dispatch_documents: "documents (snd (dispatch e fpath ftype r s)) = documents s"
  by (simp add: dispatch_def)

lemma tryBlock_documents:
  "documents s docId = Some d \<Longrightarrow>
   (fst (tryBlock e docId fpath ftype r s) = None \<and>
      (\<exists>res date. documents (snd (tryBlock e docId fpath ftype r s)) docId =
         Some (applyUpdate (SetCompleted res date) (applyUpdate SetProcessing d)))) \<or>
   (fst (tryBlock e docId fpath ftype r s) \<noteq> None \<and>
      (documents (snd (tryBlock e docId fpath ftype r s)) docId = Some d \<or>
       documents (snd (tryBlock e docId fpath ftype r s)) docId = Some (applyUpdate SetProcessing d)))"
proof -
  assume d: "documents s docId = Some d"
  show ?thesis
  proof (cases "rejection e 1")
    case (Some err)
    then show ?thesis using d by (simp add: tryBlock_def findByIdAndUpdate_def)
  next
    case None
    define s1 where "s1 = s\<lparr>documents := (documents s)(docId \<mapsto> applyUpdate SetProcessing d),
                           writes := writes s @ [(docId, SetProcessing)]\<rparr>"
    define s3 where "s3 = onTracker r (updateProgress (dateNow e 4) 30
                                   (''Processing '' @ toUpperCase ftype @ '' file''))
                          (onTracker r (updateProgress (dateNow e 3) 10 ''Reading file'') s1)"
    have f1: "findByIdAndUpdate (rejection e 1) docId SetProcessing s = Inr s1"
      using None d by (simp add: findByIdAndUpdate_def s1_def)
    obtain res s4 where dp: "dispatch e fpath ftype r s3 = (res, s4)" by (cases "dispatch e fpath ftype r s3")
    have d4: "documents s4 docId = Some (applyUpdate SetProcessing d)"
      using dispatch_documents [of e fpath ftype r s3] dp by (simp add: s3_def s1_def)
    show ?thesis
    proof (cases res)
      case (Inl err)
      then show ?thesis using f1 dp d4 by (simp add: tryBlock_def Let_def s3_def)
    next
      case (Inr extractedData)
      show ?thesis
      proof (cases "rejection e 2")
        case (Some err)
        then show ?thesis using f1 dp d4 Inr
          by (simp add: tryBlock_def Let_def s3_def findByIdAndUpdate_def)
      next
        case n2: None
        then show ?thesis using f1 dp d4 Inr
          by (auto simp: tryBlock_def Let_def s3_def findByIdAndUpdate_def)
      qed
    qed
  qed
qed

lemma processDocument_recordInvariant:
  "documents s docId = Some d \<Longrightarrow> errorMessage d = None \<Longrightarrow> processingStatus d = ''pending'' \<Longrightarrow>
   (\<exists>d'. documents (snd (processDocument e docId fpath ftype r s)) docId = Some d' \<and> recordInvariant d')"
proof -
  assume d: "documents s docId = Some d" and em: "errorMessage d = None" and st: "processingStatus d = ''pending''"
  obtain res s1 where tb: "tryBlock e docId fpath ftype r s = (res, s1)" by (cases "tryBlock e docId fpath ftype r s")
  from tryBlock_documents [OF d, of e fpath ftype r] tb
  consider (ok) rs date where "res = None" "documents s1 docId = Some (applyUpdate (SetCompleted rs date) (applyUpdate SetProcessing d))"
    | (err) x where "res = Some x" "documents s1 docId = Some d \<or> documents s1 docId = Some (applyUpdate SetProcessing d)"
    by auto
  then show ?thesis
  proof cases
    case ok
    then show ?thesis using tb em by (simp add: processDocument_def scheduleCleanup_def recordInvariant_def)
  next
    case err
    obtain th s2 where fo: "failOn r (dateNow e 10) (dateNow e 11) x s1 = (th, s2)"
      by (cases "failOn r (dateNow e 10) (dateNow e 11) x s1")
    have d2: "documents s2 = documents s1"
      using fo by (auto simp: failOn_def split: option.splits)
    show ?thesis using tb err fo d2 em st
      by (auto simp: processDocument_def scheduleCleanup_def recordInvariant_def findByIdAndUpdate_def
            split: option.splits)
  qed
qed


lemma dispatch_writes: "writes (snd (dispatch e fpath ftype r s)) = writes s"
  by (simp add: dispatch_def)

lemma tryBlock_writes:
  "(fst (tryBlock e docId fpath ftype r s) = None \<and>
      (\<exists>res date. writes (snd (tryBlock e docId fpath ftype r s)) =
         writes s @ [(docId, SetProcessing), (docId, SetCompleted res date)])) \<or>
   (fst (tryBlock e docId fpath ftype r s) \<noteq> None \<and>
      (writes (snd (tryBlock e docId fpath ftype r s)) = writes s \<or>
       writes (snd (tryBlock e docId fpath ftype r s)) = writes s @ [(docId, SetProcessing)]))"
proof (cases "rejection e 1")
  case (Some err)
  then show ?thesis by (simp add: tryBlock_def findByIdAndUpdate_def)
next
  case None
  then obtain s1 where f1: "findByIdAndUpdate (rejection e 1) docId SetProcessing s = Inr s1"
    and w1: "writes s1 = writes s @ [(docId, SetProcessing)]"
    by (simp add: findByIdAndUpdate_def)
  define s3 where "s3 = onTracker r (updateProgress (dateNow e 4) 30
                                 (''Processing '' @ toUpperCase ftype @ '' file''))
                        (onTracker r (updateProgress (dateNow e 3) 10 ''Reading file'') s1)"
  obtain res s4 where dp: "dispatch e fpath ftype r s3 = (res, s4)" by (cases "dispatch e fpath ftype r s3")
  have w4: "writes s4 = writes s @ [(docId, SetProcessing)]"
    using dispatch_writes [of e fpath ftype r s3] dp w1 by (simp add: s3_def)
  show ?thesis
  proof (cases res)
    case (Inl err)
    then show ?thesis using f1 dp w4 by (simp add: tryBlock_def Let_def s3_def)
  next
    case (Inr extractedData)
    show ?thesis
    proof (cases "rejection e 2")
      case (Some err)
      then show ?thesis using f1 dp w4 Inr
        by (simp add: tryBlock_def Let_def s3_def findByIdAndUpdate_def)
    next
      case n2: None
      then show ?thesis using f1 dp w4 Inr
        by (simp add: tryBlock_def Let_def s3_def findByIdAndUpdate_def)
    qed
  qed
qed

lemma processDocument_terminalWrites:
  "\<exists>ws. terminalWrites docId (snd (processDocument e docId fpath ftype r s)) =
          terminalWrites docId s @ ws \<and> length ws \<le> 1"
proof -
  obtain res s1 where tb: "tryBlock e docId fpath ftype r s = (res, s1)" by (cases "tryBlock e docId fpath ftype r s")
  from tryBlock_writes [of e docId fpath ftype r s] tb
  consider (ok) rs date where "res = None"
      "writes s1 = writes s @ [(docId, SetProcessing), (docId, SetCompleted rs date)]"
    | (err) x where "res = Some x" "writes s1 = writes s \<or> writes s1 = writes s @ [(docId, SetProcessing)]"
    by auto
  then show ?thesis
  proof cases
    case ok
    then show ?thesis using tb by (simp add: processDocument_def scheduleCleanup_def terminalWrites_def)
  next
    case err
    obtain th s2 where fo: "failOn r (dateNow e 10) (dateNow e 11) x s1 = (th, s2)"
      by (cases "failOn r (dateNow e 10) (dateNow e 11) x s1")
    have w2: "writes s2 = writes s1"
      using fo by (auto simp: failOn_def split: option.splits)
    show ?thesis using tb err fo w2
      by (auto simp: processDocument_def scheduleCleanup_def terminalWrites_def findByIdAndUpdate_def
            split: option.splits)
  qed
qed

section \<open>Failing jobs\<close>

text \<open>
  C4. The job of \<open>uploads/lost.txt\<close>, which cannot be read: \<open>fail\<close> throws the
  unhandled error event out of the \<open>catch\<close> block, so no terminal write is made; the
  record stays \<open>processing\<close>, without an error message.
\<close>

theorem C4_terminal_write_missing:
  "fst (processDocument exampleEnv ''doc1'' ''uploads/lost.txt'' ''txt'' 0 lostUploaded) =
     Some (Unhandled (ErrorEvent ''doc1'' ''Failed to extract TXT content: ENOENT'' 10)) \<and>
   terminalWrites ''doc1''
     (snd (processDocument exampleEnv ''doc1'' ''uploads/lost.txt'' ''txt'' 0 lostUploaded)) = [] \<and>
   map_option processingStatus
     (documents (snd (processDocument exampleEnv ''doc1'' ''uploads/lost.txt'' ''txt'' 0 lostUploaded))
        ''doc1'') = Some ''processing'' \<and>
   map_option errorMessage
     (documents (snd (processDocument exampleEnv ''doc1'' ''uploads/lost.txt'' ''txt'' 0 lostUploaded))
        ''doc1'') = Some None"
  by (simp add: processDocument_def tryBlock_def Let_def dispatch_def findByIdAndUpdate_def
        extractTXTText_def scheduleCleanup_def lostUploaded_eq failOn_def fail_eq setStatus_eq
        updateProgress_eq newProgressTracker_def onTracker_def terminalWrites_def newDocument_def
        split: prod.splits)

text \<open>
  What \<open>processDocument\<close> does with an error of its \<open>try\<close> block, by the listeners of
  the tracker.
\<close>

lemma processDocument_caught:
  "tryBlock e docId fpath ftype r s = (Some err, s1) \<Longrightarrow> heap s1 r = Some t \<Longrightarrow>
   ''error'' \<in> set (listeners t) \<Longrightarrow> rejection e 3 = None \<Longrightarrow>
   fst (processDocument e docId fpath ftype r s) = None \<and>
   writes (snd (processDocument e docId fpath ftype r s)) =
     writes s1 @ [(docId, SetFailed (message err))]"
  by (simp add: processDocument_def failOn_def fail_eq findByIdAndUpdate_def scheduleCleanup_def)

text \<open>
  C5. For every error of the \<open>try\<close> block, when the job's tracker has no listener for
  \<open>error\<close> (no tracker of this program has one): \<open>fail\<close> sets the status \<open>failed\<close>
  and the step, and its \<open>emit\<close> throws; the exception escapes \<open>processDocument\<close>, and
  the write of \<open>failed\<close> with the error message is not made.
\<close>

theorem C5_failure_escapes:
  "tryBlock e docId fpath ftype r s = (Some err, s1) \<Longrightarrow> heap s1 r = Some t \<Longrightarrow>
   ''error'' \<notin> set (listeners t) \<Longrightarrow>
   fst (processDocument e docId fpath ftype r s) =
     Some (Unhandled (ErrorEvent (documentId t) (message err) (dateNow e 11 - startTime t))) \<and>
   writes (snd (processDocument e docId fpath ftype r s)) = writes s1 \<and>
   documents (snd (processDocument e docId fpath ftype r s)) = documents s1 \<and>
   (\<exists>t'. heap (snd (processDocument e docId fpath ftype r s)) r = Some t' \<and>
         status t' = ''failed'' \<and> currentStep t' = ''Error: '' @ message err)"
  by (simp add: processDocument_def failOn_def fail_eq setStatus_eq scheduleCleanup_def)

theorem C5_failure_escapes_witness:
  "fst (processDocument exampleEnv ''doc1'' ''uploads/lost.docx'' ''docx'' 0 lostUploaded) =
     Some (Unhandled (ErrorEvent ''doc1'' ''Failed to extract DOCX content: ENOENT'' 10)) \<and>
   writes (snd (processDocument exampleEnv ''doc1'' ''uploads/lost.docx'' ''docx'' 0 lostUploaded)) =
     [(''doc1'', SetProcessing)] \<and>
   map_option processingStatus
     (documents (snd (processDocument exampleEnv ''doc1'' ''uploads/lost.docx'' ''docx'' 0 lostUploaded))
        ''doc1'') = Some ''processing''"
proof -
  let ?t = "updateProgress 4 30 (''Processing '' @ toUpperCase ''docx'' @ '' file'')
              (updateProgress 3 10 ''Reading file''
                 (setStatus 2 ''processing'' ''Starting document processing''
                    (newProgressTracker 1 ''doc1'')))"
  let ?s1 = "snd (tryBlock exampleEnv ''doc1'' ''uploads/lost.docx'' ''docx'' 0 lostUploaded)"
  have f: "fst (tryBlock exampleEnv ''doc1'' ''uploads/lost.docx'' ''docx'' 0 lostUploaded) =
      Some (Error ''Failed to extract DOCX content: ENOENT'')"
    by (simp add: tryBlock_def Let_def dispatch_def findByIdAndUpdate_def extractDOCXText_def
          split: prod.splits)
  then have tb: "tryBlock exampleEnv ''doc1'' ''uploads/lost.docx'' ''docx'' 0 lostUploaded =
      (Some (Error ''Failed to extract DOCX content: ENOENT''), ?s1)"
    by (simp add: prod_eq_iff)
  have h: "heap ?s1 0 = Some ?t"
    by (simp add: tryBlock_def Let_def dispatch_def findByIdAndUpdate_def extractDOCXText_def
          lostUploaded_eq onTracker_def split: prod.splits)
  have l: "''error'' \<notin> set (listeners ?t)"
    by (simp add: updateProgress_eq setStatus_eq newProgressTracker_def)
  have w: "writes ?s1 = [(''doc1'', SetProcessing)]"
    by (simp add: tryBlock_def Let_def dispatch_def findByIdAndUpdate_def extractDOCXText_def
          lostUploaded_eq split: prod.splits)
  have d: "map_option processingStatus (documents ?s1 ''doc1'') = Some ''processing''"
    by (simp add: tryBlock_def Let_def dispatch_def findByIdAndUpdate_def extractDOCXText_def
          lostUploaded_eq split: prod.splits)
  have m: "documentId ?t = ''doc1''" "startTime ?t = 1"
    by (simp_all add: updateProgress_eq setStatus_eq newProgressTracker_def)
  from C5_failure_escapes [OF tb h l] w d m show ?thesis by simp
qed

end
